theory Spec2Isabelle
  imports Complex_Main "HOL-Library.Monad_Syntax"
begin

section \<open>Four-component vectors (Eigen::Vector4f)\<close>

text \<open>
  The source computes on \<^verbatim>\<open>Eigen::Vector4f\<close> values and \<^verbatim>\<open>float\<close> scalars.
  The scalars are modelled as real numbers, so rounding, overflow to infinity and NaN
  are outside the model. The one place where the exact model would hide a failure of
  the floating-point program, a division whose divisor is zero, is written out: see
  \<open>vdiv\<close> below.
\<close>

datatype vec4 = Vec4 (vx: real) (vy: real) (vz: real) (vw: real)

instantiation vec4 :: ab_group_add
begin

definition zero_vec4 :: vec4 where
  "zero_vec4 = Vec4 0 0 0 0"

definition plus_vec4 :: "vec4 \<Rightarrow> vec4 \<Rightarrow> vec4" where
  "plus_vec4 u v = Vec4 (vx u + vx v) (vy u + vy v) (vz u + vz v) (vw u + vw v)"

definition minus_vec4 :: "vec4 \<Rightarrow> vec4 \<Rightarrow> vec4" where
  "minus_vec4 u v = Vec4 (vx u - vx v) (vy u - vy v) (vz u - vz v) (vw u - vw v)"

definition uminus_vec4 :: "vec4 \<Rightarrow> vec4" where
  "uminus_vec4 v = Vec4 (- vx v) (- vy v) (- vz v) (- vw v)"

instance
  by standard (simp_all add: zero_vec4_def plus_vec4_def minus_vec4_def uminus_vec4_def)

end

text \<open>Scalar times vector (\<^verbatim>\<open>s * v\<close> and \<^verbatim>\<open>v * s\<close> in the source).\<close>

definition smul :: "real \<Rightarrow> vec4 \<Rightarrow> vec4" where
  "smul s v = Vec4 (s * vx v) (s * vy v) (s * vz v) (s * vw v)"

text \<open>
  Vector divided by scalar (\<^verbatim>\<open>v / s\<close>). In IEEE arithmetic a zero divisor gives
  infinities or NaN and the program goes on with them; HOL's \<open>x / 0 = 0\<close> would hide
  that. The model makes the case visible: \<open>None\<close> stands for a result that is not a
  number.
\<close>

definition vdiv :: "vec4 \<Rightarrow> real \<Rightarrow> vec4 option" where
  "vdiv v s = (if s = 0 then None else Some (Vec4 (vx v / s) (vy v / s) (vz v / s) (vw v / s)))"

definition dot :: "vec4 \<Rightarrow> vec4 \<Rightarrow> real" where
  "dot u v = vx u * vx v + vy u * vy v + vz u * vz v + vw u * vw v"

text \<open>\<^verbatim>\<open>v.norm()\<close>: the square root of the squared norm.\<close>

definition norm4 :: "vec4 \<Rightarrow> real" where
  "norm4 v = sqrt (dot v v)"

text \<open>
  \<^verbatim>\<open>v.normalized()\<close> is a function of the Eigen library, which is not part of the
  repository. Modelled from the library's documented behaviour (Eigen 3.3 and later):
  with \<open>z\<close> the squared norm, the result is \<open>v / sqrt z\<close> if \<open>z > 0\<close> and a copy of
  \<open>v\<close> otherwise, so the zero vector is returned unchanged and nothing is divided
  by zero.
\<close>

definition normalized :: "vec4 \<Rightarrow> vec4" where
  "normalized v =
     (let z = dot v v in
      if z > 0 then Vec4 (vx v / sqrt z) (vy v / sqrt z) (vz v / sqrt z) (vw v / sqrt z)
      else v)"

text \<open>
  \<^verbatim>\<open>u.cross3(v)\<close> (Eigen): the cross product of the first three coefficients, the
  fourth coefficient of the result is 0.
\<close>

definition cross3 :: "vec4 \<Rightarrow> vec4 \<Rightarrow> vec4" where
  "cross3 u v =
     Vec4 (vy u * vz v - vz u * vy v) (vz u * vx v - vx u * vz v) (vx u * vy v - vy u * vx v) 0"

section \<open>Particles, spheres and the constants of configs.h\<close>

text \<open>
  The data model of the spec: a particle set maps an index to position, velocity,
  acceleration, mass, inverse mass and rotation. The class \<^verbatim>\<open>Particles\<close> is declared
  in a header that is not among the sources; only its accessors are used here, each
  reading or writing one field of one particle.
\<close>

record particle =
  position :: vec4
  velocity :: vec4
  acceleration :: vec4
  mass :: real
  inverseMass :: real
  rotation :: vec4

text \<open>
  The state of \<^verbatim>\<open>Spheres\<close>: \<^verbatim>\<open>sphereCount\<close>, the particle buffer \<^verbatim>\<open>_particles\<close>
  (its length is \<^verbatim>\<open>getCapacity()\<close>) and the vector \<^verbatim>\<open>_radius\<close>. The OpenGL buffers
  \<^verbatim>\<open>offsets\<close> and \<^verbatim>\<open>sizes\<close> only feed the renderer and are left out.
\<close>

record spheres =
  sphereCount :: nat
  particles :: "particle list"
  radius :: "real list"

text \<open>
  The constants of \<^verbatim>\<open>configs.h\<close>, which is not among the sources, are parameters of
  the model.
\<close>

record configs =
  sphereDensity :: real
  deltaTime :: real
  frictionCoef :: real
  particlesPerEdge :: nat

definition set_position :: "nat \<Rightarrow> vec4 \<Rightarrow> particle list \<Rightarrow> particle list" where
  "set_position k v P = P[k := (P ! k)\<lparr>position := v\<rparr>]"

definition set_velocity :: "nat \<Rightarrow> vec4 \<Rightarrow> particle list \<Rightarrow> particle list" where
  "set_velocity k v P = P[k := (P ! k)\<lparr>velocity := v\<rparr>]"

definition set_rotation :: "nat \<Rightarrow> vec4 \<Rightarrow> particle list \<Rightarrow> particle list" where
  "set_rotation k v P = P[k := (P ! k)\<lparr>rotation := v\<rparr>]"

text \<open>Running a loop body over a list of indices; the first undefined result ends it.\<close>

primrec for_each :: "('a \<Rightarrow> 's \<Rightarrow> 's option) \<Rightarrow> 'a list \<Rightarrow> 's \<Rightarrow> 's option" where
  "for_each f [] s = Some s"
| "for_each f (x # xs) s = (case f x s of None \<Rightarrow> None | Some s' \<Rightarrow> for_each f xs s')"

section \<open>Spheres::collide(): sphere against sphere\<close>

text \<open>\<^verbatim>\<open>constexpr float coefRestitution = 0.8f\<close> of \<^verbatim>\<open>Spheres::collide()\<close>.\<close>

definition coefRestitution :: real where
  "coefRestitution = 8 / 10"

text \<open>
  An index is in range when both buffers hold it. The source indexes without a check;
  an access out of range is undefined there and \<open>None\<close> here.
\<close>

definition in_range :: "spheres \<Rightarrow> nat \<Rightarrow> bool" where
  "in_range s k = (k < length (particles s) \<and> k < length (radius s))"

text \<open>
  The test of line 189: the distance of the centres is at most the sum of the radii.
\<close>

definition touching :: "spheres \<Rightarrow> nat \<Rightarrow> nat \<Rightarrow> bool" where
  "touching s j i =
     (norm4 (position (particles s ! i) - position (particles s ! j)) \<le> radius s ! j + radius s ! i)"

text \<open>
  Lines 191 to 197: the normal parts \<open>v1\<close>, \<open>v2\<close> of the two velocities, their values
  after the impulse, and the update of both velocities. The later lines read \<open>v1\<close>,
  \<open>v2\<close> and \<open>v1_after\<close> again, so they are returned with the particles.
\<close>

definition impulse ::
  "vec4 \<Rightarrow> nat \<Rightarrow> nat \<Rightarrow> particle list \<Rightarrow> (vec4 \<times> vec4 \<times> vec4 \<times> particle list) option" where
  "impulse vec j i P =
     (let v1 = smul (dot (normalized vec) (velocity (P ! j))) (normalized vec);
          v2 = smul (dot (normalized vec) (velocity (P ! i))) (normalized vec);
          m1 = mass (P ! j);
          m2 = mass (P ! i)
      in do {
        v1_after \<leftarrow> vdiv (smul m1 v1 + smul m2 v2 + smul (m2 * coefRestitution) (v2 - v1)) (m1 + m2);
        v2_after \<leftarrow> vdiv (smul m1 v1 + smul m2 v2 + smul (m1 * coefRestitution) (v1 - v2)) (m1 + m2);
        let P1 = set_velocity j (velocity (P ! j) + (- v1 + v1_after)) P;
        let P2 = set_velocity i (velocity (P1 ! i) + (- v2 + v2_after)) P1;
        Some (v1, v2, v1_after, P2)
      })"

text \<open>
  Lines 199 to 205: the size of the normal force, the two directions taken from the
  updated velocities, the friction of the motion and its effect on both velocities.
\<close>

definition move_friction ::
  "configs \<Rightarrow> nat \<Rightarrow> nat \<Rightarrow> vec4 \<Rightarrow> vec4 \<Rightarrow> vec4 \<Rightarrow> particle list \<Rightarrow>
     (real \<times> vec4 \<times> vec4 \<times> particle list) option" where
  "move_friction cfg j i v1 v2 v1_after P =
     do {
       d \<leftarrow> vdiv (v1_after - v1) (deltaTime cfg);
       let normal_force_value = norm4 (smul (mass (P ! j)) d);
       let v1' = normalized (velocity (P ! j) - v1);
       let v2' = normalized (velocity (P ! i) - v2);
       let move_friction_1 = smul (frictionCoef cfg) (smul normal_force_value (v2' - v1'));
       let move_friction_2 = smul (frictionCoef cfg) (smul normal_force_value (v1' - v2'));
       let P1 = set_velocity j
                  (velocity (P ! j) + smul (inverseMass (P ! j)) (smul (deltaTime cfg) move_friction_1)) P;
       let P2 = set_velocity i
                  (velocity (P1 ! i) + smul (inverseMass (P1 ! i)) (smul (deltaTime cfg) move_friction_2)) P1;
       Some (normal_force_value, move_friction_1, move_friction_2, P2)
     }"

text \<open>
  Lines 207 to 219. The source computes \<^verbatim>\<open>rotate_friction_1\<close> and
  \<^verbatim>\<open>rotate_friction_2\<close> (the second from \<^verbatim>\<open>rotate_direction_1 - rotate_direction_1\<close>)
  and never reads them: the velocities are changed by the two unit directions
  themselves. The model keeps both bindings as they are written.
\<close>

definition rotate_friction ::
  "configs \<Rightarrow> vec4 \<Rightarrow> nat \<Rightarrow> nat \<Rightarrow> real list \<Rightarrow> real \<Rightarrow> vec4 \<Rightarrow> vec4 \<Rightarrow> particle list \<Rightarrow>
     particle list option" where
  "rotate_friction cfg vec j i R normal_force_value move_friction_1 move_friction_2 P =
     (let rotate_direction_1 = normalized (cross3 (rotation (P ! j)) (normalized vec));
          rotate_direction_2 = normalized (cross3 (rotation (P ! i)) (normalized vec));
          rotate_friction_1 =
            smul (frictionCoef cfg) (smul normal_force_value (rotate_direction_2 - rotate_direction_1));
          rotate_friction_2 =
            smul (frictionCoef cfg) (smul normal_force_value (rotate_direction_1 - rotate_direction_1));
          P1 = set_velocity j
                 (velocity (P ! j) + smul (inverseMass (P ! j)) (smul (deltaTime cfg) rotate_direction_1)) P;
          P2 = set_velocity i
                 (velocity (P1 ! i) + smul (inverseMass (P1 ! i)) (smul (deltaTime cfg) rotate_direction_2)) P1;
          I1 = 2 / 5 * mass (P2 ! j) * (R ! j) * (R ! j);
          I2 = 2 / 5 * mass (P2 ! i) * (R ! i) * (R ! i)
      in do {
        t1 \<leftarrow> vdiv (cross3 (normalized vec) (move_friction_1 + rotate_direction_1)) I1;
        let P3 = set_rotation j (rotation (P2 ! j) + smul (deltaTime cfg) t1) P2;
        t2 \<leftarrow> vdiv (cross3 (normalized vec) (move_friction_2 + rotate_direction_2)) I2;
        let P4 = set_rotation i (rotation (P3 ! i) + smul (deltaTime cfg) t2) P3;
        Some P4
      })"

text \<open>
  Lines 221 to 224: the penetration and the push along the normal. The source binds
  the correction with \<^verbatim>\<open>auto\<close>, that is as an unevaluated Eigen expression; the
  model takes its value, \<^verbatim>\<open>penetration * vec.normalized() * 0.15\<close>.
\<close>

definition push_back :: "vec4 \<Rightarrow> nat \<Rightarrow> nat \<Rightarrow> real list \<Rightarrow> particle list \<Rightarrow> particle list" where
  "push_back vec j i R P =
     (let penetration = R ! j + R ! i - \<bar>norm4 (position (P ! i) - position (P ! j))\<bar>;
          correction = smul (15 / 100) (smul penetration (normalized vec));
          P1 = set_position i (position (P ! i) + correction) P;
          P2 = set_position j (position (P1 ! j) - correction) P1
      in P2)"

text \<open>The body of the nested iteration, lines 189 to 225, for the spheres \<open>j\<close> and \<open>i\<close>.\<close>

definition collide_pair :: "configs \<Rightarrow> nat \<Rightarrow> nat \<Rightarrow> spheres \<Rightarrow> spheres option" where
  "collide_pair cfg j i s =
     (if \<not> (in_range s j \<and> in_range s i) then None
      else if touching s j i then
        do {
          let vec = position (particles s ! i) - position (particles s ! j);
          (v1, v2, v1_after, P1) \<leftarrow> impulse vec j i (particles s);
          (normal_force_value, move_friction_1, move_friction_2, P2) \<leftarrow>
            move_friction cfg j i v1 v2 v1_after P1;
          P3 \<leftarrow> rotate_friction cfg vec j i (radius s) normal_force_value move_friction_1 move_friction_2 P2;
          Some (s\<lparr>particles := push_back vec j i (radius s) P3\<rparr>)
        }
      else Some s)"

text \<open>
  \<^verbatim>\<open>Spheres::collide()\<close>, lines 187 to 227: \<open>j\<close> runs over all spheres, \<open>i\<close> over the
  spheres after \<open>j\<close>.
\<close>

definition collide :: "configs \<Rightarrow> spheres \<Rightarrow> spheres option" where
  "collide cfg s =
     for_each (\<lambda>j s'. for_each (\<lambda>i. collide_pair cfg j i) [Suc j..<sphereCount s'] s')
       [0..<sphereCount s] s"

section \<open>Spheres::collide(Cloth*): sphere against cloth particle\<close>

text \<open>
  The cloth owns a particle set of its own, \<^verbatim>\<open>cloth->particles()\<close>; the state of this
  operation is the pair of the spheres and the cloth's particles. The function declares
  \<^verbatim>\<open>constexpr float coefRestitution = 0.0f\<close> and never reads it: the formulas of
  lines 142 and 143 are written without the restitution term.
\<close>

definition in_range_cloth :: "spheres \<times> particle list \<Rightarrow> nat \<Rightarrow> nat \<Rightarrow> bool" where
  "in_range_cloth w j i = (in_range (fst w) j \<and> i < length (snd w))"

text \<open>The test of line 137: the cloth particle is within the radius of the sphere.\<close>

definition touching_cloth :: "spheres \<times> particle list \<Rightarrow> nat \<Rightarrow> nat \<Rightarrow> bool" where
  "touching_cloth w j i =
     (norm4 (position (snd w ! i) - position (particles (fst w) ! j)) \<le> radius (fst w) ! j)"

text \<open>Lines 139 to 145; \<open>S\<close> are the particles of the spheres, \<open>C\<close> those of the cloth.\<close>

definition impulse_cloth ::
  "vec4 \<Rightarrow> nat \<Rightarrow> nat \<Rightarrow> particle list \<Rightarrow> particle list \<Rightarrow>
     (vec4 \<times> vec4 \<times> vec4 \<times> particle list \<times> particle list) option" where
  "impulse_cloth vec j i S C =
     (let v1 = smul (dot (normalized vec) (velocity (S ! j))) (normalized vec);
          v2 = smul (dot (normalized vec) (velocity (C ! i))) (normalized vec);
          m1 = mass (S ! j);
          m2 = mass (C ! i)
      in do {
        v1_after \<leftarrow> vdiv (smul m1 v1 + smul m2 v2) (m1 + m2);
        v2_after \<leftarrow> vdiv (smul m1 v1 + smul m2 v2) (m1 + m2);
        let S1 = set_velocity j (velocity (S ! j) + (- v1 + v1_after)) S;
        let C1 = set_velocity i (velocity (C ! i) + (- v2 + v2_after)) C;
        Some (v1, v2, v1_after, S1, C1)
      })"

text \<open>Lines 147 to 153.\<close>

definition move_friction_cloth ::
  "configs \<Rightarrow> nat \<Rightarrow> nat \<Rightarrow> vec4 \<Rightarrow> vec4 \<Rightarrow> vec4 \<Rightarrow> particle list \<Rightarrow> particle list \<Rightarrow>
     (real \<times> vec4 \<times> particle list \<times> particle list) option" where
  "move_friction_cloth cfg j i v1 v2 v1_after S C =
     do {
       d \<leftarrow> vdiv (v1_after - v1) (deltaTime cfg);
       let normal_force_value = norm4 (smul (mass (S ! j)) d);
       let v1' = normalized (velocity (S ! j) - v1);
       let v2' = normalized (velocity (C ! i) - v2);
       let move_friction_1 = smul (frictionCoef cfg) (smul normal_force_value (v2' - v1'));
       let move_friction_2 = smul (frictionCoef cfg) (smul normal_force_value (v1' - v2'));
       let S1 = set_velocity j
                  (velocity (S ! j) + smul (inverseMass (S ! j)) (smul (deltaTime cfg) move_friction_1)) S;
       let C1 = set_velocity i
                  (velocity (C ! i) + smul (inverseMass (C ! i)) (smul (deltaTime cfg) move_friction_2)) C;
       Some (normal_force_value, move_friction_1, S1, C1)
     }"

text \<open>
  Lines 155 to 163. Here the sphere's velocity is changed by the unit direction
  \<^verbatim>\<open>rotate_direction_1\<close> and the cloth particle's by \<^verbatim>\<open>rotate_friction_2\<close>;
  \<^verbatim>\<open>rotate_friction_1\<close> is never read. Only the sphere has its rotation changed.
\<close>

definition rotate_friction_cloth ::
  "configs \<Rightarrow> vec4 \<Rightarrow> nat \<Rightarrow> nat \<Rightarrow> real list \<Rightarrow> real \<Rightarrow> vec4 \<Rightarrow> particle list \<Rightarrow> particle list \<Rightarrow>
     (particle list \<times> particle list) option" where
  "rotate_friction_cloth cfg vec j i R normal_force_value move_friction_1 S C =
     (let rotate_direction_1 = normalized (cross3 (rotation (S ! j)) (normalized vec));
          rotate_friction_1 = smul (frictionCoef cfg) (smul normal_force_value (- rotate_direction_1));
          rotate_friction_2 = smul (frictionCoef cfg) (smul normal_force_value rotate_direction_1);
          S1 = set_velocity j
                 (velocity (S ! j) + smul (inverseMass (S ! j)) (smul (deltaTime cfg) rotate_direction_1)) S;
          C1 = set_velocity i
                 (velocity (C ! i) + smul (inverseMass (C ! i)) (smul (deltaTime cfg) rotate_friction_2)) C;
          I1 = 2 / 5 * mass (S1 ! j) * (R ! j) * (R ! j)
      in do {
        t1 \<leftarrow> vdiv (cross3 (normalized vec) (move_friction_1 + rotate_direction_1)) I1;
        let S2 = set_rotation j (rotation (S1 ! j) + smul (deltaTime cfg) t1) S1;
        Some (S2, C1)
      })"

text \<open>Lines 165 to 168.\<close>

definition push_back_cloth ::
  "vec4 \<Rightarrow> nat \<Rightarrow> nat \<Rightarrow> real list \<Rightarrow> particle list \<Rightarrow> particle list \<Rightarrow> particle list \<times> particle list" where
  "push_back_cloth vec j i R S C =
     (let penetration = R ! j - \<bar>norm4 (position (C ! i) - position (S ! j))\<bar>;
          correction = smul (15 / 100) (smul penetration (normalized vec));
          C1 = set_position i (position (C ! i) + correction) C;
          S1 = set_position j (position (S ! j) - correction) S
      in (S1, C1))"

text \<open>The body of the nested iteration, lines 137 to 169, for sphere \<open>j\<close> and cloth particle \<open>i\<close>.\<close>

definition collide_cloth_pair ::
  "configs \<Rightarrow> nat \<Rightarrow> nat \<Rightarrow> spheres \<times> particle list \<Rightarrow> (spheres \<times> particle list) option" where
  "collide_cloth_pair cfg j i w =
     (if \<not> in_range_cloth w j i then None
      else if touching_cloth w j i then
        do {
          let s = fst w;
          let vec = position (snd w ! i) - position (particles s ! j);
          (v1, v2, v1_after, S1, C1) \<leftarrow> impulse_cloth vec j i (particles s) (snd w);
          (normal_force_value, move_friction_1, S2, C2) \<leftarrow>
            move_friction_cloth cfg j i v1 v2 v1_after S1 C1;
          (S3, C3) \<leftarrow> rotate_friction_cloth cfg vec j i (radius s) normal_force_value move_friction_1 S2 C2;
          let (S4, C4) = push_back_cloth vec j i (radius s) S3 C3;
          Some (s\<lparr>particles := S4\<rparr>, C4)
        }
      else Some w)"

text \<open>
  \<^verbatim>\<open>Spheres::collide(Cloth*)\<close>, lines 135 to 171: every sphere against each of the
  \<^verbatim>\<open>particlesPerEdge * particlesPerEdge\<close> particles of the cloth.
\<close>

definition collide_cloth :: "configs \<Rightarrow> spheres \<times> particle list \<Rightarrow> (spheres \<times> particle list) option" where
  "collide_cloth cfg w =
     for_each
       (\<lambda>j w'. for_each (\<lambda>i. collide_cloth_pair cfg j i)
                  [0..<particlesPerEdge cfg * particlesPerEdge cfg] w')
       [0..<sphereCount (fst w)] w"

section \<open>Spheres::addSphere\<close>

text \<open>
  Modelled from the spec: \<^verbatim>\<open>Particles::resize\<close> and \<^verbatim>\<open>Particles::getCapacity\<close> are
  declared in a header that is not among the sources. The spec speaks of a
  reallocation that grows the storage, so \<open>resize n\<close> keeps the first \<open>n\<close> entries and
  fills up to length \<open>n\<close>, as \<^verbatim>\<open>std::vector::resize\<close> does for \<^verbatim>\<open>_radius\<close>, and the
  capacity is the length of the buffer. What the new particle slots hold is not known;
  it is the parameter \<open>fresh\<close>.
\<close>

definition resize :: "nat \<Rightarrow> 'a \<Rightarrow> 'a list \<Rightarrow> 'a list" where
  "resize n pad xs = take n xs @ replicate (n - length xs) pad"

text \<open>
  Lines 56 to 71. The writes of lines 63 to 67 index the buffers without a check; a
  write out of range is undefined in the source and \<open>None\<close> here.
\<close>

definition addSphere :: "configs \<Rightarrow> particle \<Rightarrow> vec4 \<Rightarrow> real \<Rightarrow> spheres \<Rightarrow> spheres option" where
  "addSphere cfg fresh pos size' s =
     (let s1 = (if sphereCount s = length (particles s)
                then s\<lparr>particles := resize (sphereCount s * 2) fresh (particles s),
                       radius := resize (sphereCount s * 2) 0 (radius s)\<rparr>
                else s);
          n = sphereCount s1
      in if \<not> in_range s1 n then None
         else
           let R = (radius s1)[n := size'];
               P1 = set_position n pos (particles s1);
               P2 = set_velocity n 0 P1;
               P3 = P2[n := (P2 ! n)\<lparr>acceleration := 0\<rparr>];
               P4 = P3[n := (P3 ! n)\<lparr>mass := sphereDensity cfg * size' * size' * size'\<rparr>]
           in Some (s1\<lparr>radius := R, particles := P4, sphereCount := Suc n\<rparr>))"

text \<open>
  The object that \<^verbatim>\<open>initSpheres()\<close> returns, as the constructor of line 73 builds it:
  no sphere, a radius vector of one entry 0, and the particle set that \<^verbatim>\<open>Shape(1, 1)\<close>
  creates, taken to hold one particle.
\<close>

definition initSpheres :: "particle \<Rightarrow> spheres" where
  "initSpheres fresh = \<lparr>sphereCount = 0, particles = [fresh], radius = [0]\<rparr>"

text \<open>A sequence of calls of \<^verbatim>\<open>addSphere\<close>, each with its position and size.\<close>

definition addSpheres :: "configs \<Rightarrow> particle \<Rightarrow> (vec4 \<times> real) list \<Rightarrow> spheres \<Rightarrow> spheres option" where
  "addSpheres cfg fresh adds s = for_each (\<lambda>a. addSphere cfg fresh (fst a) (snd a)) adds s"

section \<open>Notions the properties are stated with\<close>

text \<open>The pairs that \<^verbatim>\<open>collide()\<close> visits, in their order.\<close>

definition sphere_pairs :: "nat \<Rightarrow> (nat \<times> nat) list" where
  "sphere_pairs n = concat (map (\<lambda>j. map (Pair j) [Suc j..<n]) [0..<n])"

text \<open>The pairs (sphere, cloth particle) that \<^verbatim>\<open>collide(Cloth*)\<close> visits.\<close>

definition cloth_pairs :: "nat \<Rightarrow> nat \<Rightarrow> (nat \<times> nat) list" where
  "cloth_pairs n m = concat (map (\<lambda>j. map (Pair j) [0..<m]) [0..<n])"

text \<open>
  The record of a run: the elements for which the test \<open>t\<close> held in the state in
  which the loop body met them.
\<close>

primrec collided :: "('a \<Rightarrow> 's \<Rightarrow> bool) \<Rightarrow> ('a \<Rightarrow> 's \<Rightarrow> 's option) \<Rightarrow> 'a list \<Rightarrow> 's \<Rightarrow> 'a list" where
  "collided t f [] s = []"
| "collided t f (x # xs) s =
     (if t x s then [x] else []) @ (case f x s of None \<Rightarrow> [] | Some s' \<Rightarrow> collided t f xs s')"

definition collide_hits :: "configs \<Rightarrow> spheres \<Rightarrow> (nat \<times> nat) list" where
  "collide_hits cfg s =
     collided (\<lambda>p s'. touching s' (fst p) (snd p)) (\<lambda>p. collide_pair cfg (fst p) (snd p))
       (sphere_pairs (sphereCount s)) s"

definition collide_cloth_hits :: "configs \<Rightarrow> spheres \<times> particle list \<Rightarrow> (nat \<times> nat) list" where
  "collide_cloth_hits cfg w =
     collided (\<lambda>p w'. touching_cloth w' (fst p) (snd p)) (\<lambda>p. collide_cloth_pair cfg (fst p) (snd p))
       (cloth_pairs (sphereCount (fst w)) (particlesPerEdge cfg * particlesPerEdge cfg)) w"

text \<open>The linear momentum of the particles \<open>j\<close> and \<open>i\<close> together.\<close>

definition momentum :: "particle list \<Rightarrow> nat \<Rightarrow> nat \<Rightarrow> vec4" where
  "momentum P j i = smul (mass (P ! j)) (velocity (P ! j)) + smul (mass (P ! i)) (velocity (P ! i))"

text \<open>How deep two spheres, or a sphere and a cloth particle, reach into each other.\<close>

definition overlap :: "spheres \<Rightarrow> nat \<Rightarrow> nat \<Rightarrow> real" where
  "overlap s j i =
     radius s ! j + radius s ! i - norm4 (position (particles s ! i) - position (particles s ! j))"

definition overlap_cloth :: "spheres \<times> particle list \<Rightarrow> nat \<Rightarrow> nat \<Rightarrow> real" where
  "overlap_cloth w j i =
     radius (fst w) ! j - norm4 (position (snd w ! i) - position (particles (fst w) ! j))"



text \<open>
  The frame of an update of a particle buffer: the length, and mass, inverse mass and
  acceleration of every particle stay; a particle outside \<open>A\<close> stays as a whole.
\<close>

definition frame :: "nat set \<Rightarrow> particle list \<Rightarrow> particle list \<Rightarrow> bool" where
  "frame A P P' =
     (length P' = length P \<and>
      (\<forall>k. mass (P' ! k) = mass (P ! k) \<and> inverseMass (P' ! k) = inverseMass (P ! k) \<and>
           acceleration (P' ! k) = acceleration (P ! k)) \<and>
      (\<forall>k. k \<notin> A \<longrightarrow> P' ! k = P ! k))"

section \<open>Concrete states\<close>

text \<open>
  Values for the constants of \<^verbatim>\<open>configs.h\<close> and small states on which the operations
  are run below: a particle at rest or moving, with inverse mass \<open>1 / m\<close>, and a set of
  two spheres.
\<close>

definition cfg0 :: configs where
  "cfg0 = \<lparr>sphereDensity = 1, deltaTime = 1 / 1000, frictionCoef = 1 / 2, particlesPerEdge = 1\<rparr>"

definition ball :: "vec4 \<Rightarrow> vec4 \<Rightarrow> vec4 \<Rightarrow> real \<Rightarrow> particle" where
  "ball pos vel rot m =
     \<lparr>position = pos, velocity = vel, acceleration = 0, mass = m, inverseMass = 1 / m, rotation = rot\<rparr>"

definition two_spheres :: "particle \<Rightarrow> particle \<Rightarrow> real \<Rightarrow> real \<Rightarrow> spheres" where
  "two_spheres a b ra rb = \<lparr>sphereCount = 2, particles = [a, b], radius = [ra, rb]\<rparr>"



text \<open>
  A unit sphere moving at unit speed towards a second one at rest that it overlaps,
  and the same sphere overlapping a cloth of one particle.
\<close>

definition approaching :: spheres where
  "approaching = two_spheres (ball 0 (Vec4 1 0 0 0) 0 1) (ball (Vec4 1 0 0 0) 0 0 1) 1 1"

definition approaching_cloth :: "spheres \<times> particle list" where
  "approaching_cloth =
     (\<lparr>sphereCount = 1, particles = [ball 0 (Vec4 1 0 0 0) 0 1], radius = [1]\<rparr>,
      [ball (Vec4 (1 / 2) 0 0 0) 0 0 1])"

text \<open>
  The states that one pass of the loop body makes of them; with these constants the
  friction of lines 204 and 205 (152 and 153) gives each body its old velocity back.
\<close>

definition approaching_after :: spheres where
  "approaching_after =
     two_spheres (ball (Vec4 (- (3 / 20)) 0 0 0) (Vec4 1 0 0 0) 0 1) (ball (Vec4 (23 / 20) 0 0 0) 0 0 1) 1 1"

definition approaching_cloth_after :: "spheres \<times> particle list" where
  "approaching_cloth_after =
     (\<lparr>sphereCount = 1, particles = [ball (Vec4 (- (3 / 40)) 0 0 0) (Vec4 1 0 0 0) 0 1], radius = [1]\<rparr>,
      [ball (Vec4 (23 / 40) 0 0 0) 0 0 1])"

text \<open>
  Two overlapping unit spheres, each spinning about an axis across the line of
  centres, the first moving towards the second; and the state that one call of
  \<^verbatim>\<open>collide()\<close> makes of it.
\<close>

definition spinning :: spheres where
  "spinning =
     two_spheres (ball 0 (Vec4 1 0 0 0) (Vec4 0 1 0 0) 1) (ball (Vec4 1 0 0 0) 0 (Vec4 0 0 1 0) 1) 1 1"

definition spinning_after :: spheres where
  "spinning_after =
     two_spheres
       (ball (Vec4 (- (3 / 20)) 0 0 0) (Vec4 1 0 (- (1 / 1000)) 0) (Vec4 0 (401 / 400) 0 0) 1)
       (ball (Vec4 (23 / 20) 0 0 0) (Vec4 0 (1 / 1000) 0 0) (Vec4 0 0 (401 / 400) 0) 1) 1 1"

text \<open>
  Three unit spheres at rest on a line, the first two overlapping and the third far
  away, and the state after one call of \<^verbatim>\<open>collide()\<close>.
\<close>

definition three :: spheres where
  "three =
     \<lparr>sphereCount = 3,
      particles = [ball 0 0 0 1, ball (Vec4 1 0 0 0) 0 0 1, ball (Vec4 9 0 0 0) 0 0 1],
      radius = [1, 1, 1]\<rparr>"

definition three_after :: spheres where
  "three_after =
     \<lparr>sphereCount = 3,
      particles = [ball (Vec4 (- (3 / 20)) 0 0 0) 0 0 1, ball (Vec4 (23 / 20) 0 0 0) 0 0 1,
                   ball (Vec4 9 0 0 0) 0 0 1],
      radius = [1, 1, 1]\<rparr>"





text \<open>A particle for fresh slots, and a set of one sphere whose buffers are full.\<close>

definition unit_particle :: particle where
  "unit_particle = ball 0 0 0 1"

definition one_sphere :: spheres where
  "one_sphere = \<lparr>sphereCount = 1, particles = [ball 0 0 0 1], radius = [1]\<rparr>"

section \<open>Vector algebra\<close>

lemma vec4_sel_simps:
  "vx (u + v) = vx u + vx v" "vy (u + v) = vy u + vy v" "vz (u + v) = vz u + vz v" "vw (u + v) = vw u + vw v"
  "vx (u - v) = vx u - vx v" "vy (u - v) = vy u - vy v" "vz (u - v) = vz u - vz v" "vw (u - v) = vw u - vw v"
  "vx (- v) = - vx v" "vy (- v) = - vy v" "vz (- v) = - vz v" "vw (- v) = - vw v"
  "vx (smul a v) = a * vx v" "vy (smul a v) = a * vy v" "vz (smul a v) = a * vz v" "vw (smul a v) = a * vw v"
  "vx 0 = 0" "vy 0 = 0" "vz 0 = 0" "vw 0 = 0"
  by (simp_all add: plus_vec4_def minus_vec4_def uminus_vec4_def smul_def zero_vec4_def)

lemma dot_nonneg: "0 \<le> dot v v"
  by (simp add: dot_def)

lemma dot_zero_iff: "dot v v = 0 \<longleftrightarrow> v = 0"
proof
  assume "dot v v = 0"
  then have "(vx v)\<^sup>2 + (vy v)\<^sup>2 + ((vz v)\<^sup>2 + (vw v)\<^sup>2) = 0"
    by (simp add: dot_def power2_eq_square)
  then have "vx v = 0 \<and> vy v = 0 \<and> vz v = 0 \<and> vw v = 0"
    by (simp add: add_nonneg_eq_0_iff)
  then show "v = 0"
    by (simp add: vec4.expand vec4_sel_simps)
next
  assume "v = 0" then show "dot v v = 0" by (simp add: dot_def vec4_sel_simps)
qed

lemma normalized_zero: "normalized 0 = 0"
  by (simp add: normalized_def dot_def vec4_sel_simps)

lemma dot_smul_left: "dot (smul a u) v = a * dot u v"
  by (simp add: dot_def vec4_sel_simps algebra_simps)

lemma dot_smul_right: "dot u (smul a v) = a * dot u v"
  by (simp add: dot_def vec4_sel_simps algebra_simps)



lemma smul_zero_right: "smul a 0 = 0"
  by (simp add: smul_def zero_vec4_def)

lemma dot_pos: "v \<noteq> 0 \<Longrightarrow> 0 < dot v v"
  using dot_nonneg [of v] dot_zero_iff [of v] by (simp add: less_le)

lemma normalized_smul: "normalized v = smul (1 / norm4 v) v"
proof (cases "v = 0")
  case True
  then show ?thesis by (simp add: normalized_zero smul_zero_right)
next
  case False
  then show ?thesis
    by (simp add: normalized_def Let_def dot_pos norm4_def smul_def)
qed


lemma norm4_smul: "norm4 (smul a v) = \<bar>a\<bar> * norm4 v"
  by (simp add: norm4_def dot_smul_left dot_smul_right real_sqrt_mult flip: mult.assoc)


section \<open>Updates of a particle buffer\<close>

lemma nth_update_any: "xs[k := x] ! m = (if m = k \<and> k < length xs then x else xs ! m)"
  by (cases "k < length xs") (auto simp add: nth_list_update list_update_beyond)

lemma nth_set_velocity:
  "set_velocity k v P ! m = (if m = k \<and> k < length P then (P ! k)\<lparr>velocity := v\<rparr> else P ! m)"
  by (simp add: set_velocity_def nth_update_any)

lemma nth_set_position:
  "set_position k v P ! m = (if m = k \<and> k < length P then (P ! k)\<lparr>position := v\<rparr> else P ! m)"
  by (simp add: set_position_def nth_update_any)

lemma nth_set_rotation:
  "set_rotation k v P ! m = (if m = k \<and> k < length P then (P ! k)\<lparr>rotation := v\<rparr> else P ! m)"
  by (simp add: set_rotation_def nth_update_any)

lemma length_set [simp]:
  "length (set_velocity k v P) = length P"
  "length (set_position k v P) = length P"
  "length (set_rotation k v P) = length P"
  by (simp_all add: set_velocity_def set_position_def set_rotation_def)

lemma frame_refl: "frame A P P"
  by (simp add: frame_def)

lemma frame_trans: "frame A P P' \<Longrightarrow> frame B P' P'' \<Longrightarrow> frame (A \<union> B) P P''"
  by (simp add: frame_def)

lemma frame_set_velocity: "frame {k} P (set_velocity k v P)"
  by (simp add: frame_def nth_set_velocity)

lemma frame_set_position: "frame {k} P (set_position k v P)"
  by (simp add: frame_def nth_set_position)

lemma frame_set_rotation: "frame {k} P (set_rotation k v P)"
  by (simp add: frame_def nth_set_rotation)


section \<open>Pairs that do not touch, and small index lists\<close>


lemma collide_pair_apart:
  "in_range s j \<Longrightarrow> in_range s i \<Longrightarrow> \<not> touching s j i \<Longrightarrow> collide_pair cfg j i s = Some s"
  by (simp add: collide_pair_def)


lemma norm4_axis: "norm4 (Vec4 a 0 0 0) = \<bar>a\<bar>"
  by (simp add: norm4_def dot_def)

lemma upt_2: "[0..<2] = [0, Suc 0]" "[Suc 0..<2] = [Suc 0]" "[Suc (Suc 0)..<2] = []" "[0..<Suc 0] = [0]"
  by (simp_all add: numeral_2_eq_2)

section \<open>What one pass of a loop body leaves alone\<close>

lemma norm4_nonneg: "0 \<le> norm4 v"
  by (simp add: norm4_def dot_nonneg)



lemma frame_set_velocity2: "frame {j, i} P (set_velocity i v (set_velocity j u P))"
  by (simp add: frame_def nth_set_velocity)

lemma frame_set_rotation2: "frame {j, i} P (set_rotation i v (set_rotation j u P))"
  by (simp add: frame_def nth_set_rotation)

lemma frame_set_position2: "frame {j, i} P (set_position j v (set_position i u P))"
  by (simp add: frame_def nth_set_position)

lemma impulse_frame:
  "impulse vec j i P = Some (v1, v2, v1_after, P') \<Longrightarrow> frame {j, i} P P'"
  by (auto simp add: impulse_def Let_def frame_set_velocity2 split: Option.bind_splits)

lemma move_friction_frame:
  "move_friction cfg j i v1 v2 v1_after P = Some (nfv, mf1, mf2, P') \<Longrightarrow> frame {j, i} P P'"
  by (auto simp add: move_friction_def Let_def frame_set_velocity2 split: Option.bind_splits)

lemma rotate_friction_frame:
  assumes "rotate_friction cfg vec j i R nfv mf1 mf2 P = Some P'"
  shows "frame {j, i} P P'"
proof -
  from assms obtain u v u' v' where
    "P' = set_rotation i v' (set_rotation j u' (set_velocity i v (set_velocity j u P)))"
    by (auto simp add: rotate_friction_def Let_def split: Option.bind_splits)
  moreover have "frame {j, i} P (set_velocity i v (set_velocity j u P))"
    by (rule frame_set_velocity2)
  moreover have "frame {j, i} (set_velocity i v (set_velocity j u P))
      (set_rotation i v' (set_rotation j u' (set_velocity i v (set_velocity j u P))))"
    by (rule frame_set_rotation2)
  ultimately show ?thesis
    using frame_trans [of "{j, i}" P _ "{j, i}" P'] by simp
qed

lemma push_back_frame: "frame {j, i} P (push_back vec j i R P)"
  by (simp add: push_back_def Let_def frame_set_position2)

lemma collide_pair_phases:
  assumes "collide_pair cfg j i s = Some s'" "touching s j i"
  obtains v1 v2 v1_after P1 nfv mf1 mf2 P2 P3 where
    "impulse (position (particles s ! i) - position (particles s ! j)) j i (particles s) =
       Some (v1, v2, v1_after, P1)"
    "move_friction cfg j i v1 v2 v1_after P1 = Some (nfv, mf1, mf2, P2)"
    "rotate_friction cfg (position (particles s ! i) - position (particles s ! j)) j i (radius s)
       nfv mf1 mf2 P2 = Some P3"
    "s' = s\<lparr>particles :=
              push_back (position (particles s ! i) - position (particles s ! j)) j i (radius s) P3\<rparr>"
  using assms
  by (auto simp add: collide_pair_def Let_def split: if_splits Option.bind_splits)

lemma collide_pair_in_range:
  "collide_pair cfg j i s = Some s' \<Longrightarrow> in_range s j \<and> in_range s i"
  by (simp add: collide_pair_def split: if_splits)

lemma collide_pair_not_touching:
  "collide_pair cfg j i s = Some s' \<Longrightarrow> \<not> touching s j i \<Longrightarrow> s' = s"
  by (simp add: collide_pair_def split: if_splits)

lemma collide_pair_frame:
  assumes "collide_pair cfg j i s = Some s'"
  shows "sphereCount s' = sphereCount s \<and> radius s' = radius s \<and>
         frame (if touching s j i then {j, i} else {}) (particles s) (particles s')"
proof (cases "touching s j i")
  case False
  with collide_pair_not_touching [OF assms] show ?thesis
    by (simp add: frame_refl)
next
  case True
  from assms True obtain v1 v2 v1_after P1 nfv mf1 mf2 P2 P3 where
    1: "impulse (position (particles s ! i) - position (particles s ! j)) j i (particles s) =
       Some (v1, v2, v1_after, P1)" and
    2: "move_friction cfg j i v1 v2 v1_after P1 = Some (nfv, mf1, mf2, P2)" and
    3: "rotate_friction cfg (position (particles s ! i) - position (particles s ! j)) j i (radius s)
       nfv mf1 mf2 P2 = Some P3" and
    4: "s' = s\<lparr>particles :=
              push_back (position (particles s ! i) - position (particles s ! j)) j i (radius s) P3\<rparr>"
    by (rule collide_pair_phases)
  have "frame {j, i} (particles s) (particles s')"
    using frame_trans [OF frame_trans [OF frame_trans [OF impulse_frame [OF 1] move_friction_frame [OF 2]]
        rotate_friction_frame [OF 3]] push_back_frame [of j i P3]] 4
    by simp
  with True 4 show ?thesis by simp
qed




lemma frame_trans_same: "frame A P P' \<Longrightarrow> frame A P' P'' \<Longrightarrow> frame A P P''"
  by (simp add: frame_def)


lemma impulse_cloth_frame:
  "impulse_cloth vec j i S C = Some (v1, v2, v1_after, S', C') \<Longrightarrow> frame {j} S S' \<and> frame {i} C C'"
  by (auto simp add: impulse_cloth_def Let_def frame_set_velocity split: Option.bind_splits)

lemma move_friction_cloth_frame:
  "move_friction_cloth cfg j i v1 v2 v1_after S C = Some (nfv, mf1, S', C') \<Longrightarrow>
     frame {j} S S' \<and> frame {i} C C'"
  by (auto simp add: move_friction_cloth_def Let_def frame_set_velocity split: Option.bind_splits)

lemma rotate_friction_cloth_frame:
  assumes "rotate_friction_cloth cfg vec j i R nfv mf1 S C = Some (S', C')"
  shows "frame {j} S S' \<and> frame {i} C C'"
proof -
  from assms obtain u u' v where
    S': "S' = set_rotation j u' (set_velocity j u S)" and C': "C' = set_velocity i v C"
    by (auto simp add: rotate_friction_cloth_def Let_def split: Option.bind_splits)
  have "frame ({j} \<union> {j}) S (set_rotation j u' (set_velocity j u S))"
    by (rule frame_trans [OF frame_set_velocity frame_set_rotation])
  then show ?thesis
    by (simp add: S' C' frame_set_velocity)
qed

lemma push_back_cloth_frame:
  "frame {j} S (fst (push_back_cloth vec j i R S C)) \<and> frame {i} C (snd (push_back_cloth vec j i R S C))"
  by (simp add: push_back_cloth_def Let_def frame_set_position)

lemma collide_cloth_pair_phases:
  assumes "collide_cloth_pair cfg j i w = Some w'" "touching_cloth w j i"
  obtains v1 v2 v1_after S1 C1 nfv mf1 S2 C2 S3 C3 where
    "impulse_cloth (position (snd w ! i) - position (particles (fst w) ! j)) j i (particles (fst w)) (snd w) =
       Some (v1, v2, v1_after, S1, C1)"
    "move_friction_cloth cfg j i v1 v2 v1_after S1 C1 = Some (nfv, mf1, S2, C2)"
    "rotate_friction_cloth cfg (position (snd w ! i) - position (particles (fst w) ! j)) j i
       (radius (fst w)) nfv mf1 S2 C2 = Some (S3, C3)"
    "w' = ((fst w)\<lparr>particles :=
              fst (push_back_cloth (position (snd w ! i) - position (particles (fst w) ! j)) j i
                     (radius (fst w)) S3 C3)\<rparr>,
           snd (push_back_cloth (position (snd w ! i) - position (particles (fst w) ! j)) j i
                     (radius (fst w)) S3 C3))"
  using assms
  by (auto simp add: collide_cloth_pair_def Let_def split: if_splits Option.bind_splits prod.splits)

lemma collide_cloth_pair_in_range:
  "collide_cloth_pair cfg j i w = Some w' \<Longrightarrow> in_range_cloth w j i"
  by (simp add: collide_cloth_pair_def split: if_splits)

lemma collide_cloth_pair_not_touching:
  "collide_cloth_pair cfg j i w = Some w' \<Longrightarrow> \<not> touching_cloth w j i \<Longrightarrow> w' = w"
  by (simp add: collide_cloth_pair_def split: if_splits)

lemma collide_cloth_pair_frame:
  assumes "collide_cloth_pair cfg j i w = Some w'"
  shows "sphereCount (fst w') = sphereCount (fst w) \<and> radius (fst w') = radius (fst w) \<and>
         frame (if touching_cloth w j i then {j} else {}) (particles (fst w)) (particles (fst w')) \<and>
         frame (if touching_cloth w j i then {i} else {}) (snd w) (snd w')"
proof (cases "touching_cloth w j i")
  case False
  with collide_cloth_pair_not_touching [OF assms] show ?thesis
    by (simp add: frame_refl)
next
  case True
  let ?vec = "position (snd w ! i) - position (particles (fst w) ! j)"
  from assms True obtain v1 v2 v1_after S1 C1 nfv mf1 S2 C2 S3 C3 where
    1: "impulse_cloth ?vec j i (particles (fst w)) (snd w) = Some (v1, v2, v1_after, S1, C1)" and
    2: "move_friction_cloth cfg j i v1 v2 v1_after S1 C1 = Some (nfv, mf1, S2, C2)" and
    3: "rotate_friction_cloth cfg ?vec j i (radius (fst w)) nfv mf1 S2 C2 = Some (S3, C3)" and
    4: "w' = ((fst w)\<lparr>particles := fst (push_back_cloth ?vec j i (radius (fst w)) S3 C3)\<rparr>,
           snd (push_back_cloth ?vec j i (radius (fst w)) S3 C3))"
    by (rule collide_cloth_pair_phases)
  note a = impulse_cloth_frame [OF 1] move_friction_cloth_frame [OF 2] rotate_friction_cloth_frame [OF 3]
    push_back_cloth_frame [of j S3 ?vec i "radius (fst w)" C3]
  have "frame {j} (particles (fst w)) (particles (fst w'))"
    using a 4 by (auto intro: frame_trans_same)
  moreover have "frame {i} (snd w) (snd w')"
    using a 4 by (auto intro: frame_trans_same)
  ultimately show ?thesis using True 4 by simp
qed

section \<open>Both operations as one pass over a list of pairs\<close>

lemma for_each_append:
  "for_each f (xs @ ys) s = (case for_each f xs s of None \<Rightarrow> None | Some s' \<Rightarrow> for_each f ys s')"
  by (induction xs arbitrary: s) (simp_all split: option.splits)

lemma for_each_map: "for_each f (map g xs) s = for_each (\<lambda>x. f (g x)) xs s"
  by (induction xs arbitrary: s) (simp_all split: option.splits)


lemma inner_count:
  "for_each (\<lambda>i. collide_pair cfg j i) is s = Some s' \<Longrightarrow> sphereCount s' = sphereCount s"
  by (induction "is" arbitrary: s) (auto split: option.splits dest: collide_pair_frame)

lemma collide_outer_pairs:
  "sphereCount s = n \<Longrightarrow>
   for_each (\<lambda>j s'. for_each (\<lambda>i. collide_pair cfg j i) [Suc j..<sphereCount s'] s') js s =
   for_each (\<lambda>p. collide_pair cfg (fst p) (snd p)) (concat (map (\<lambda>j. map (Pair j) [Suc j..<n]) js)) s"
proof (induction js arbitrary: s)
  case Nil
  then show ?case by simp
next
  case (Cons j js)
  show ?case
  proof (cases "for_each (\<lambda>i. collide_pair cfg j i) [Suc j..<n] s")
    case None
    with Cons.prems show ?thesis
      by (simp add: for_each_append for_each_map)
  next
    case (Some t)
    then have "sphereCount t = n" using Cons.prems by (simp add: inner_count)
    from Cons.IH [OF this] Some Cons.prems show ?thesis
      by (simp add: for_each_append for_each_map)
  qed
qed

lemma collide_pairs:
  "collide cfg s = for_each (\<lambda>p. collide_pair cfg (fst p) (snd p)) (sphere_pairs (sphereCount s)) s"
  by (simp add: collide_def sphere_pairs_def collide_outer_pairs)

lemma collide_cloth_outer_pairs:
  "for_each (\<lambda>j w'. for_each (\<lambda>i. collide_cloth_pair cfg j i) [0..<m] w') js w =
   for_each (\<lambda>p. collide_cloth_pair cfg (fst p) (snd p)) (concat (map (\<lambda>j. map (Pair j) [0..<m]) js)) w"
  by (induction js arbitrary: w) (simp_all add: for_each_append for_each_map split: option.splits)

lemma collide_cloth_pairs:
  "collide_cloth cfg w =
   for_each (\<lambda>p. collide_cloth_pair cfg (fst p) (snd p))
     (cloth_pairs (sphereCount (fst w)) (particlesPerEdge cfg * particlesPerEdge cfg)) w"
  by (simp add: collide_cloth_def cloth_pairs_def collide_cloth_outer_pairs)






section \<open>States on which no divisor is zero\<close>





lemma frame_length: "frame A P P' \<Longrightarrow> length P' = length P"
  by (simp add: frame_def)












lemma for_each_collided:
  assumes refl: "\<And>s. R {} s s"
    and trans: "\<And>A B s s' s''. R A s s' \<Longrightarrow> R B s' s'' \<Longrightarrow> R (A \<union> B) s s''"
    and step: "\<And>x t t'. f x t = Some t' \<Longrightarrow> R (if tst x t then A x else {}) t t'"
  shows "for_each f xs s = Some s' \<Longrightarrow> R (\<Union>x\<in>set (collided tst f xs s). A x) s s'"
proof (induction xs arbitrary: s)
  case Nil
  then show ?case by (simp add: refl)
next
  case (Cons x xs)
  from Cons.prems obtain t where t: "f x s = Some t" "for_each f xs t = Some s'"
    by (auto split: option.splits)
  have "R ((if tst x s then A x else {}) \<union> (\<Union>y\<in>set (collided tst f xs t). A y)) s s'"
    by (rule trans [OF step [OF t(1)] Cons.IH [OF t(2)]])
  moreover have "(\<Union>y\<in>set (collided tst f (x # xs) s). A y) =
      (if tst x s then A x else {}) \<union> (\<Union>y\<in>set (collided tst f xs t). A y)"
    using t(1) by simp
  ultimately show ?case by simp
qed

lemma collide_frame:
  assumes "collide cfg s = Some s'"
  shows "sphereCount s' = sphereCount s \<and> radius s' = radius s \<and>
         frame (\<Union>p\<in>set (collide_hits cfg s). {fst p, snd p}) (particles s) (particles s')"
proof -
  let ?R = "\<lambda>A t t'. sphereCount t' = sphereCount t \<and> radius t' = radius t \<and>
              frame A (particles t) (particles t')"
  have "?R (\<Union>p\<in>set (collided (\<lambda>p t. touching t (fst p) (snd p)) (\<lambda>p. collide_pair cfg (fst p) (snd p))
                        (sphere_pairs (sphereCount s)) s). {fst p, snd p}) s s'"
  proof (rule for_each_collided [where R = ?R])
    show "?R {} t t" for t by (simp add: frame_refl)
    show "?R (A \<union> B) t t''" if "?R A t t'" "?R B t' t''" for A B t t' t''
      using that frame_trans [of A "particles t" "particles t'" B "particles t''"] by simp
    show "?R (if touching t (fst p) (snd p) then {fst p, snd p} else {}) t t'"
      if "collide_pair cfg (fst p) (snd p) t = Some t'" for p t t'
      using collide_pair_frame [OF that] by simp
    show "for_each (\<lambda>p. collide_pair cfg (fst p) (snd p)) (sphere_pairs (sphereCount s)) s = Some s'"
      using assms by (simp add: collide_pairs)
  qed
  then show ?thesis by (simp add: collide_hits_def)
qed

lemma collide_cloth_frame:
  assumes "collide_cloth cfg w = Some w'"
  shows "sphereCount (fst w') = sphereCount (fst w) \<and> radius (fst w') = radius (fst w) \<and>
         frame (fst ` set (collide_cloth_hits cfg w)) (particles (fst w)) (particles (fst w')) \<and>
         frame (snd ` set (collide_cloth_hits cfg w)) (snd w) (snd w')"
proof -
  let ?R = "\<lambda>A t t'. sphereCount (fst t') = sphereCount (fst t) \<and> radius (fst t') = radius (fst t) \<and>
              frame (fst ` A) (particles (fst t)) (particles (fst t')) \<and> frame (snd ` A) (snd t) (snd t')"
  let ?m = "particlesPerEdge cfg * particlesPerEdge cfg"
  have "?R (\<Union>p\<in>set (collided (\<lambda>p t. touching_cloth t (fst p) (snd p))
                        (\<lambda>p. collide_cloth_pair cfg (fst p) (snd p))
                        (cloth_pairs (sphereCount (fst w)) ?m) w). {p}) w w'"
  proof (rule for_each_collided [where R = ?R])
    show "?R {} t t" for t by (simp add: frame_refl)
    show "?R (A \<union> B) t t''" if "?R A t t'" "?R B t' t''" for A B t t' t''
      using that frame_trans [of "fst ` A" "particles (fst t)" "particles (fst t')" "fst ` B" "particles (fst t'')"]
        frame_trans [of "snd ` A" "snd t" "snd t'" "snd ` B" "snd t''"]
      by (simp add: image_Un)
    show "?R (if touching_cloth t (fst p) (snd p) then {p} else {}) t t'"
      if "collide_cloth_pair cfg (fst p) (snd p) t = Some t'" for p t t'
      using collide_cloth_pair_frame [OF that] by (cases "touching_cloth t (fst p) (snd p)") simp_all
    show "for_each (\<lambda>p. collide_cloth_pair cfg (fst p) (snd p)) (cloth_pairs (sphereCount (fst w)) ?m) w = Some w'"
      using assms by (simp add: collide_cloth_pairs)
  qed
  then show ?thesis by (simp add: collide_cloth_hits_def)
qed

section \<open>Running the loop body on the concrete states\<close>

lemmas vec_eval = plus_vec4_def minus_vec4_def uminus_vec4_def zero_vec4_def smul_def dot_def norm4_def
  normalized_def cross3_def vdiv_def

lemmas upd_eval = set_velocity_def set_position_def set_rotation_def


lemma normalized_x: "normalized (Vec4 1 0 0 0) = Vec4 1 0 0 0"
  by (simp add: vec_eval)

lemma normalized_axis: "a \<noteq> 0 \<Longrightarrow> normalized (Vec4 a 0 0 0) = Vec4 (a / \<bar>a\<bar>) 0 0 0"
  by (simp add: normalized_smul norm4_axis smul_def)

lemma spinning_impulse:
  "impulse (Vec4 1 0 0 0) 0 (Suc 0)
       [ball 0 (Vec4 1 0 0 0) (Vec4 0 1 0 0) 1, ball (Vec4 1 0 0 0) 0 (Vec4 0 0 1 0) 1] =
     Some (Vec4 1 0 0 0, 0, Vec4 (1 / 10) 0 0 0,
           [ball 0 (Vec4 (1 / 10) 0 0 0) (Vec4 0 1 0 0) 1,
            ball (Vec4 1 0 0 0) (Vec4 (9 / 10) 0 0 0) (Vec4 0 0 1 0) 1])"
  by (simp add: impulse_def normalized_x Let_def ball_def coefRestitution_def
      plus_vec4_def minus_vec4_def uminus_vec4_def zero_vec4_def smul_def dot_def vdiv_def upd_eval)

lemma spinning_move_friction:
  "move_friction cfg0 0 (Suc 0) (Vec4 1 0 0 0) 0 (Vec4 (1 / 10) 0 0 0)
       [ball 0 (Vec4 (1 / 10) 0 0 0) (Vec4 0 1 0 0) 1,
        ball (Vec4 1 0 0 0) (Vec4 (9 / 10) 0 0 0) (Vec4 0 0 1 0) 1] =
     Some (900, Vec4 900 0 0 0, Vec4 (- 900) 0 0 0,
           [ball 0 (Vec4 1 0 0 0) (Vec4 0 1 0 0) 1, ball (Vec4 1 0 0 0) 0 (Vec4 0 0 1 0) 1])"
proof -
  have d: "vdiv (Vec4 (1 / 10) 0 0 0 - Vec4 1 0 0 0) (deltaTime cfg0) = Some (Vec4 (- 900) 0 0 0)"
    by (simp add: vdiv_def cfg0_def minus_vec4_def)
  have n: "norm4 (smul 1 (Vec4 (- 900) 0 0 0)) = 900"
    by (simp add: smul_def norm4_axis)
  have a: "normalized (Vec4 (1 / 10) 0 0 0 - Vec4 1 0 0 0) = Vec4 (- 1) 0 0 0"
    "normalized (Vec4 (9 / 10) 0 0 0) = Vec4 1 0 0 0"
    by (simp_all add: minus_vec4_def normalized_axis)
  show ?thesis
    by (simp add: move_friction_def Let_def ball_def d n a)
       (simp add: cfg0_def plus_vec4_def minus_vec4_def zero_vec4_def smul_def upd_eval)
qed

lemma normalized_unit:
  "normalized (Vec4 0 0 (- 1) 0) = Vec4 0 0 (- 1) 0" "normalized (Vec4 0 1 0 0) = Vec4 0 1 0 0"
  by (simp_all add: normalized_def dot_def)

lemma spinning_rotate_friction:
  "rotate_friction cfg0 (Vec4 1 0 0 0) 0 (Suc 0) [1, 1] 900 (Vec4 900 0 0 0) (Vec4 (- 900) 0 0 0)
       [ball 0 (Vec4 1 0 0 0) (Vec4 0 1 0 0) 1, ball (Vec4 1 0 0 0) 0 (Vec4 0 0 1 0) 1] =
     Some [ball 0 (Vec4 1 0 (- (1 / 1000)) 0) (Vec4 0 (401 / 400) 0 0) 1,
           ball (Vec4 1 0 0 0) (Vec4 0 (1 / 1000) 0 0) (Vec4 0 0 (401 / 400) 0) 1]"
proof -
  have c: "cross3 (Vec4 0 1 0 0) (Vec4 1 0 0 0) = Vec4 0 0 (- 1) 0"
    "cross3 (Vec4 0 0 1 0) (Vec4 1 0 0 0) = Vec4 0 1 0 0"
    by (simp_all add: cross3_def)
  show ?thesis
    by (simp add: rotate_friction_def normalized_x Let_def ball_def c normalized_unit)
       (simp add: cfg0_def plus_vec4_def minus_vec4_def zero_vec4_def smul_def cross3_def vdiv_def upd_eval)
qed

lemma spinning_push_back:
  "push_back (Vec4 1 0 0 0) 0 (Suc 0) [1, 1]
       [ball 0 (Vec4 1 0 (- (1 / 1000)) 0) (Vec4 0 (401 / 400) 0 0) 1,
        ball (Vec4 1 0 0 0) (Vec4 0 (1 / 1000) 0 0) (Vec4 0 0 (401 / 400) 0) 1] =
     [ball (Vec4 (- (3 / 20)) 0 0 0) (Vec4 1 0 (- (1 / 1000)) 0) (Vec4 0 (401 / 400) 0 0) 1,
      ball (Vec4 (23 / 20) 0 0 0) (Vec4 0 (1 / 1000) 0 0) (Vec4 0 0 (401 / 400) 0) 1]"
  by (simp add: push_back_def normalized_x Let_def ball_def plus_vec4_def minus_vec4_def zero_vec4_def
      smul_def norm4_axis upd_eval)

lemma spinning_pair:
  "collide_pair cfg0 0 (Suc 0) spinning = Some spinning_after"
proof -
  have t: "touching spinning 0 (Suc 0)"
    by (simp add: touching_def spinning_def two_spheres_def ball_def minus_vec4_def zero_vec4_def norm4_axis)
  have r: "in_range spinning 0" "in_range spinning (Suc 0)"
    by (simp_all add: in_range_def spinning_def two_spheres_def)
  have p: "particles spinning =
      [ball 0 (Vec4 1 0 0 0) (Vec4 0 1 0 0) 1, ball (Vec4 1 0 0 0) 0 (Vec4 0 0 1 0) 1]"
    "radius spinning = [1, 1]"
    by (simp_all add: spinning_def two_spheres_def)
  have v: "position (particles spinning ! Suc 0) - position (particles spinning ! 0) = Vec4 1 0 0 0"
    by (simp add: p ball_def minus_vec4_def zero_vec4_def)
  show ?thesis
    by (simp add: collide_pair_def t r v)
       (simp add: p spinning_impulse spinning_move_friction spinning_rotate_friction spinning_push_back
          spinning_def spinning_after_def two_spheres_def Let_def)
qed

lemma sphere_pairs_2: "sphere_pairs 2 = [(0, 1)]"
  by (simp add: sphere_pairs_def upt_2)

lemma collide_two: "sphereCount s = 2 \<Longrightarrow> collide cfg s = collide_pair cfg 0 1 s"
  by (simp add: collide_pairs sphere_pairs_2 split: option.splits)

lemma approaching_facts:
  "in_range approaching 0" "in_range approaching (Suc 0)" "touching approaching 0 (Suc 0)"
  "particles approaching = [ball 0 (Vec4 1 0 0 0) 0 1, ball (Vec4 1 0 0 0) 0 0 1]"
  "radius approaching = [1, 1]"
  "position (particles approaching ! Suc 0) - position (particles approaching ! 0) = Vec4 1 0 0 0"
  "overlap approaching 0 (Suc 0) = 1"
  by (simp_all add: in_range_def touching_def overlap_def approaching_def two_spheres_def ball_def
      minus_vec4_def zero_vec4_def norm4_axis)

lemma approaching_cloth_facts:
  "in_range_cloth approaching_cloth 0 0" "touching_cloth approaching_cloth 0 0"
  "particles (fst approaching_cloth) = [ball 0 (Vec4 1 0 0 0) 0 1]"
  "snd approaching_cloth = [ball (Vec4 (1 / 2) 0 0 0) 0 0 1]"
  "radius (fst approaching_cloth) = [1]"
  "position (snd approaching_cloth ! 0) - position (particles (fst approaching_cloth) ! 0) = Vec4 (1 / 2) 0 0 0"
  "overlap_cloth approaching_cloth 0 0 = 1 / 2"
  by (simp_all add: in_range_cloth_def in_range_def touching_cloth_def overlap_cloth_def
      approaching_cloth_def ball_def minus_vec4_def zero_vec4_def norm4_axis)

lemma normalized_half: "normalized (Vec4 (1 / 2) 0 0 0) = Vec4 1 0 0 0"
  by (simp add: normalized_smul norm4_axis smul_def)

lemma normalized_zero_vec: "normalized (Vec4 0 0 0 0) = Vec4 0 0 0 0"
  by (simp add: normalized_def dot_def)

lemma approaching_impulse:
  "impulse (Vec4 1 0 0 0) 0 (Suc 0) [ball 0 (Vec4 1 0 0 0) 0 1, ball (Vec4 1 0 0 0) 0 0 1] =
     Some (Vec4 1 0 0 0, 0, Vec4 (1 / 10) 0 0 0,
           [ball 0 (Vec4 (1 / 10) 0 0 0) 0 1, ball (Vec4 1 0 0 0) (Vec4 (9 / 10) 0 0 0) 0 1])"
  by (simp add: impulse_def normalized_x Let_def ball_def coefRestitution_def
      plus_vec4_def minus_vec4_def uminus_vec4_def zero_vec4_def smul_def dot_def vdiv_def upd_eval)

lemma approaching_move_friction:
  "move_friction cfg0 0 (Suc 0) (Vec4 1 0 0 0) 0 (Vec4 (1 / 10) 0 0 0)
       [ball 0 (Vec4 (1 / 10) 0 0 0) 0 1, ball (Vec4 1 0 0 0) (Vec4 (9 / 10) 0 0 0) 0 1] =
     Some (900, Vec4 900 0 0 0, Vec4 (- 900) 0 0 0,
           [ball 0 (Vec4 1 0 0 0) 0 1, ball (Vec4 1 0 0 0) 0 0 1])"
proof -
  have d: "vdiv (Vec4 (1 / 10) 0 0 0 - Vec4 1 0 0 0) (deltaTime cfg0) = Some (Vec4 (- 900) 0 0 0)"
    by (simp add: vdiv_def cfg0_def minus_vec4_def)
  have n: "norm4 (smul 1 (Vec4 (- 900) 0 0 0)) = 900"
    by (simp add: smul_def norm4_axis)
  have a: "normalized (Vec4 (1 / 10) 0 0 0 - Vec4 1 0 0 0) = Vec4 (- 1) 0 0 0"
    "normalized (Vec4 (9 / 10) 0 0 0) = Vec4 1 0 0 0"
    by (simp_all add: minus_vec4_def normalized_axis)
  show ?thesis
    by (simp add: move_friction_def Let_def ball_def d n a)
       (simp add: cfg0_def plus_vec4_def minus_vec4_def zero_vec4_def smul_def upd_eval)
qed

lemma approaching_rotate_friction:
  "rotate_friction cfg0 (Vec4 1 0 0 0) 0 (Suc 0) [1, 1] 900 (Vec4 900 0 0 0) (Vec4 (- 900) 0 0 0)
       [ball 0 (Vec4 1 0 0 0) 0 1, ball (Vec4 1 0 0 0) 0 0 1] =
     Some [ball 0 (Vec4 1 0 0 0) 0 1, ball (Vec4 1 0 0 0) 0 0 1]"
proof -
  have c: "cross3 0 (Vec4 1 0 0 0) = Vec4 0 0 0 0"
    by (simp add: cross3_def zero_vec4_def)
  show ?thesis
    by (simp add: rotate_friction_def normalized_x Let_def ball_def c normalized_zero_vec)
       (simp add: cfg0_def plus_vec4_def minus_vec4_def zero_vec4_def smul_def cross3_def vdiv_def upd_eval)
qed

lemma approaching_push_back:
  "push_back (Vec4 1 0 0 0) 0 (Suc 0) [1, 1] [ball 0 (Vec4 1 0 0 0) 0 1, ball (Vec4 1 0 0 0) 0 0 1] =
     [ball (Vec4 (- (3 / 20)) 0 0 0) (Vec4 1 0 0 0) 0 1, ball (Vec4 (23 / 20) 0 0 0) 0 0 1]"
  by (simp add: push_back_def normalized_x Let_def ball_def plus_vec4_def minus_vec4_def zero_vec4_def
      smul_def norm4_axis upd_eval)

lemma approaching_pair: "collide_pair cfg0 0 (Suc 0) approaching = Some approaching_after"
  by (simp add: collide_pair_def approaching_facts(1,2,3,6))
     (simp add: approaching_facts(4,5) approaching_impulse approaching_move_friction
        approaching_rotate_friction approaching_push_back approaching_def approaching_after_def
        two_spheres_def Let_def)

lemma approaching_cloth_impulse:
  "impulse_cloth (Vec4 (1 / 2) 0 0 0) 0 0 [ball 0 (Vec4 1 0 0 0) 0 1] [ball (Vec4 (1 / 2) 0 0 0) 0 0 1] =
     Some (Vec4 1 0 0 0, 0, Vec4 (1 / 2) 0 0 0,
           [ball 0 (Vec4 (1 / 2) 0 0 0) 0 1], [ball (Vec4 (1 / 2) 0 0 0) (Vec4 (1 / 2) 0 0 0) 0 1])"
  by (simp add: impulse_cloth_def normalized_half Let_def ball_def
      plus_vec4_def minus_vec4_def uminus_vec4_def zero_vec4_def smul_def dot_def vdiv_def upd_eval)

lemma approaching_cloth_move_friction:
  "move_friction_cloth cfg0 0 0 (Vec4 1 0 0 0) 0 (Vec4 (1 / 2) 0 0 0)
       [ball 0 (Vec4 (1 / 2) 0 0 0) 0 1] [ball (Vec4 (1 / 2) 0 0 0) (Vec4 (1 / 2) 0 0 0) 0 1] =
     Some (500, Vec4 500 0 0 0, [ball 0 (Vec4 1 0 0 0) 0 1], [ball (Vec4 (1 / 2) 0 0 0) 0 0 1])"
proof -
  have d: "vdiv (Vec4 (1 / 2) 0 0 0 - Vec4 1 0 0 0) (deltaTime cfg0) = Some (Vec4 (- 500) 0 0 0)"
    by (simp add: vdiv_def cfg0_def minus_vec4_def)
  have n: "norm4 (smul 1 (Vec4 (- 500) 0 0 0)) = 500"
    by (simp add: smul_def norm4_axis)
  have a: "normalized (Vec4 (1 / 2) 0 0 0 - Vec4 1 0 0 0) = Vec4 (- 1) 0 0 0"
    by (simp add: minus_vec4_def normalized_axis)
  show ?thesis
    by (simp add: move_friction_cloth_def Let_def ball_def d n a normalized_half)
       (simp add: cfg0_def plus_vec4_def minus_vec4_def zero_vec4_def smul_def upd_eval)
qed

lemma approaching_cloth_rotate_friction:
  "rotate_friction_cloth cfg0 (Vec4 (1 / 2) 0 0 0) 0 0 [1] 500 (Vec4 500 0 0 0)
       [ball 0 (Vec4 1 0 0 0) 0 1] [ball (Vec4 (1 / 2) 0 0 0) 0 0 1] =
     Some ([ball 0 (Vec4 1 0 0 0) 0 1], [ball (Vec4 (1 / 2) 0 0 0) 0 0 1])"
proof -
  have c: "cross3 0 (Vec4 1 0 0 0) = Vec4 0 0 0 0"
    by (simp add: cross3_def zero_vec4_def)
  show ?thesis
    by (simp add: rotate_friction_cloth_def normalized_half Let_def ball_def c normalized_zero_vec)
       (simp add: cfg0_def plus_vec4_def minus_vec4_def zero_vec4_def smul_def cross3_def vdiv_def upd_eval)
qed

lemma approaching_cloth_push_back:
  "push_back_cloth (Vec4 (1 / 2) 0 0 0) 0 0 [1] [ball 0 (Vec4 1 0 0 0) 0 1] [ball (Vec4 (1 / 2) 0 0 0) 0 0 1] =
     ([ball (Vec4 (- (3 / 40)) 0 0 0) (Vec4 1 0 0 0) 0 1], [ball (Vec4 (23 / 40) 0 0 0) 0 0 1])"
  by (simp add: push_back_cloth_def normalized_half Let_def ball_def plus_vec4_def minus_vec4_def
      zero_vec4_def smul_def norm4_axis upd_eval)

lemma approaching_cloth_pair: "collide_cloth_pair cfg0 0 0 approaching_cloth = Some approaching_cloth_after"
  by (simp add: collide_cloth_pair_def approaching_cloth_facts(1,2,6))
     (simp add: approaching_cloth_facts(3,4,5) approaching_cloth_impulse approaching_cloth_move_friction
        approaching_cloth_rotate_friction approaching_cloth_push_back approaching_cloth_def
        approaching_cloth_after_def Let_def)

lemma approaching_defined: "\<exists>s'. collide_pair cfg0 0 (Suc 0) approaching = Some s'"
  by (simp add: approaching_pair)

lemma approaching_cloth_defined: "\<exists>w'. collide_cloth_pair cfg0 0 0 approaching_cloth = Some w'"
  by (simp add: approaching_cloth_pair)

lemma cloth_pairs_1: "cloth_pairs (Suc 0) (Suc 0) = [(0, 0)]"
  by (simp add: cloth_pairs_def)


lemma three_impulse:
  "impulse (Vec4 1 0 0 0) 0 (Suc 0) (particles three) = Some (0, 0, 0, particles three)"
  by (simp add: three_def impulse_def normalized_x Let_def ball_def coefRestitution_def vec_eval upd_eval)

lemma three_move_friction:
  "move_friction cfg0 0 (Suc 0) 0 0 0 (particles three) = Some (0, 0, 0, particles three)"
  by (simp add: three_def move_friction_def Let_def ball_def cfg0_def vec_eval upd_eval)

lemma three_rotate_friction:
  "rotate_friction cfg0 (Vec4 1 0 0 0) 0 (Suc 0) [1, 1, 1] 0 0 0 (particles three) = Some (particles three)"
  by (simp add: three_def rotate_friction_def normalized_x Let_def ball_def cfg0_def vec_eval upd_eval)

lemma three_push_back:
  "push_back (Vec4 1 0 0 0) 0 (Suc 0) [1, 1, 1] (particles three) = particles three_after"
  by (simp add: three_def three_after_def push_back_def normalized_x Let_def ball_def vec_eval upd_eval)

lemma three_pair:
  "collide_pair cfg0 0 (Suc 0) three = Some three_after"
proof -
  have t: "touching three 0 (Suc 0)"
    by (simp add: touching_def three_def ball_def vec_eval)
  have r: "in_range three 0" "in_range three (Suc 0)"
    by (simp_all add: in_range_def three_def)
  have v: "position (particles three ! Suc 0) - position (particles three ! 0) = Vec4 1 0 0 0"
    by (simp add: three_def ball_def vec_eval)
  have rad: "radius three = [1, 1, 1]"
    by (simp add: three_def)
  have "three\<lparr>particles := particles three_after\<rparr> = three_after"
    by (simp add: three_def three_after_def)
  then show ?thesis
    by (simp add: collide_pair_def t r v rad three_impulse three_move_friction three_rotate_friction
        three_push_back Let_def)
qed

lemma three_after_apart:
  "\<not> touching three_after 0 2" "\<not> touching three_after (Suc 0) 2"
  "in_range three_after 0" "in_range three_after (Suc 0)" "in_range three_after 2"
  by (simp_all add: touching_def in_range_def three_after_def ball_def minus_vec4_def norm4_axis)

lemma sphere_pairs_3: "sphere_pairs 3 = [(0, Suc 0), (0, 2), (Suc 0, 2)]"
  by code_simp

lemma three_run:
  "collide cfg0 three = Some three_after" "collide_hits cfg0 three = [(0, Suc 0)]"
proof -
  have c: "sphereCount three = 3" by (simp add: three_def)
  have p: "collide_pair cfg0 0 2 three_after = Some three_after"
    "collide_pair cfg0 (Suc 0) 2 three_after = Some three_after"
    by (simp_all add: collide_pair_apart three_after_apart)
  have t: "touching three 0 (Suc 0)"
    by (simp add: touching_def three_def ball_def vec_eval)
  show "collide cfg0 three = Some three_after"
    by (simp add: collide_pairs c sphere_pairs_3 three_pair p)
  show "collide_hits cfg0 three = [(0, Suc 0)]"
    by (simp add: collide_hits_def c sphere_pairs_3 three_pair p t three_after_apart)
qed

section \<open>Positions and overlap\<close>

lemma push_back_positions:
  assumes "j \<noteq> i" "j < length P" "i < length P"
  shows "position (push_back vec j i R P ! i) =
           position (P ! i) +
           smul (15 / 100) (smul (R ! j + R ! i - norm4 (position (P ! i) - position (P ! j))) (normalized vec))"
    and "position (push_back vec j i R P ! j) =
           position (P ! j) -
           smul (15 / 100) (smul (R ! j + R ! i - norm4 (position (P ! i) - position (P ! j))) (normalized vec))"
  using assms by (simp_all add: push_back_def Let_def nth_set_position norm4_nonneg)

lemma pushed_apart:
  assumes "0 \<le> p"
  shows "norm4 (a - b) \<le>
         norm4 ((a + smul (15 / 100) (smul p (normalized (a - b)))) -
                (b - smul (15 / 100) (smul p (normalized (a - b)))))"
proof -
  define c where "c = 1 / norm4 (a - b)"
  define k where "k = 1 + 2 * (15 / 100) * p * c"
  have n: "normalized (a - b) = smul c (a - b)"
    by (simp add: c_def normalized_smul)
  have eq: "(a + smul (15 / 100) (smul p (smul c (a - b)))) - (b - smul (15 / 100) (smul p (smul c (a - b))))
              = smul k (a - b)"
    by (rule vec4.expand) (simp add: k_def vec4_sel_simps field_simps)
  have "0 \<le> c"
    using norm4_nonneg [of "a - b"] by (simp add: c_def)
  then have "0 \<le> 2 * (15 / 100) * p * c"
    using assms by simp
  then have "1 \<le> \<bar>k\<bar>"
    by (simp add: k_def)
  then have "1 * norm4 (a - b) \<le> \<bar>k\<bar> * norm4 (a - b)"
    by (rule mult_right_mono) (rule norm4_nonneg)
  then show ?thesis
    by (simp only: n eq norm4_smul mult_1)
qed



lemma impulse_positions:
  "impulse vec j i P = Some (v1, v2, v1_after, P') \<Longrightarrow> position (P' ! k) = position (P ! k)"
  by (auto simp add: impulse_def Let_def nth_set_velocity split: Option.bind_splits)

lemma move_friction_positions:
  "move_friction cfg j i v1 v2 v1_after P = Some (nfv, mf1, mf2, P') \<Longrightarrow>
     position (P' ! k) = position (P ! k)"
  by (auto simp add: move_friction_def Let_def nth_set_velocity split: Option.bind_splits)

lemma rotate_friction_positions:
  "rotate_friction cfg vec j i R nfv mf1 mf2 P = Some P' \<Longrightarrow> position (P' ! k) = position (P ! k)"
  by (auto simp add: rotate_friction_def Let_def nth_set_velocity nth_set_rotation split: Option.bind_splits)

lemma impulse_cloth_positions:
  "impulse_cloth vec j i S C = Some (v1, v2, v1_after, S', C') \<Longrightarrow>
     position (S' ! k) = position (S ! k) \<and> position (C' ! k) = position (C ! k)"
  by (auto simp add: impulse_cloth_def Let_def nth_set_velocity split: Option.bind_splits)

lemma move_friction_cloth_positions:
  "move_friction_cloth cfg j i v1 v2 v1_after S C = Some (nfv, mf1, S', C') \<Longrightarrow>
     position (S' ! k) = position (S ! k) \<and> position (C' ! k) = position (C ! k)"
  by (auto simp add: move_friction_cloth_def Let_def nth_set_velocity split: Option.bind_splits)

lemma rotate_friction_cloth_positions:
  "rotate_friction_cloth cfg vec j i R nfv mf1 S C = Some (S', C') \<Longrightarrow>
     position (S' ! k) = position (S ! k) \<and> position (C' ! k) = position (C ! k)"
  by (auto simp add: rotate_friction_cloth_def Let_def nth_set_velocity nth_set_rotation
      split: Option.bind_splits)

lemma push_back_cloth_positions:
  assumes "j < length S" "i < length C"
  shows "position (snd (push_back_cloth vec j i R S C) ! i) =
           position (C ! i) +
           smul (15 / 100) (smul (R ! j - norm4 (position (C ! i) - position (S ! j))) (normalized vec))"
    and "position (fst (push_back_cloth vec j i R S C) ! j) =
           position (S ! j) -
           smul (15 / 100) (smul (R ! j - norm4 (position (C ! i) - position (S ! j))) (normalized vec))"
  using assms by (simp_all add: push_back_cloth_def Let_def nth_set_position norm4_nonneg)

lemma collide_pair_positions:
  assumes "collide_pair cfg j i s = Some s'" "touching s j i" "j \<noteq> i"
  shows "position (particles s' ! i) =
           position (particles s ! i) +
           smul (15 / 100)
             (smul (overlap s j i) (normalized (position (particles s ! i) - position (particles s ! j))))"
    and "position (particles s' ! j) =
           position (particles s ! j) -
           smul (15 / 100)
             (smul (overlap s j i) (normalized (position (particles s ! i) - position (particles s ! j))))"
proof -
  let ?vec = "position (particles s ! i) - position (particles s ! j)"
  from assms(1,2) obtain v1 v2 v1_after P1 nfv mf1 mf2 P2 P3 where
    1: "impulse ?vec j i (particles s) = Some (v1, v2, v1_after, P1)" and
    2: "move_friction cfg j i v1 v2 v1_after P1 = Some (nfv, mf1, mf2, P2)" and
    3: "rotate_friction cfg ?vec j i (radius s) nfv mf1 mf2 P2 = Some P3" and
    4: "s' = s\<lparr>particles := push_back ?vec j i (radius s) P3\<rparr>"
    by (rule collide_pair_phases)
  have pos: "position (P3 ! k) = position (particles s ! k)" for k
    by (simp add: impulse_positions [OF 1] move_friction_positions [OF 2] rotate_friction_positions [OF 3])
  have len: "length P3 = length (particles s)"
    using impulse_frame [OF 1] move_friction_frame [OF 2] rotate_friction_frame [OF 3]
    by (simp add: frame_def)
  have rng: "j < length P3" "i < length P3"
    using collide_pair_in_range [OF assms(1)] by (simp_all add: in_range_def len)
  show "position (particles s' ! i) =
           position (particles s ! i) + smul (15 / 100) (smul (overlap s j i) (normalized ?vec))"
    using push_back_positions(1) [OF assms(3) rng] by (simp add: 4 pos overlap_def)
  show "position (particles s' ! j) =
           position (particles s ! j) - smul (15 / 100) (smul (overlap s j i) (normalized ?vec))"
    using push_back_positions(2) [OF assms(3) rng] by (simp add: 4 pos overlap_def)
qed

lemma collide_cloth_pair_positions:
  assumes "collide_cloth_pair cfg j i w = Some w'" "touching_cloth w j i"
  shows "position (snd w' ! i) =
           position (snd w ! i) +
           smul (15 / 100)
             (smul (overlap_cloth w j i)
                (normalized (position (snd w ! i) - position (particles (fst w) ! j))))"
    and "position (particles (fst w') ! j) =
           position (particles (fst w) ! j) -
           smul (15 / 100)
             (smul (overlap_cloth w j i)
                (normalized (position (snd w ! i) - position (particles (fst w) ! j))))"
proof -
  let ?vec = "position (snd w ! i) - position (particles (fst w) ! j)"
  from assms obtain v1 v2 v1_after S1 C1 nfv mf1 S2 C2 S3 C3 where
    1: "impulse_cloth ?vec j i (particles (fst w)) (snd w) = Some (v1, v2, v1_after, S1, C1)" and
    2: "move_friction_cloth cfg j i v1 v2 v1_after S1 C1 = Some (nfv, mf1, S2, C2)" and
    3: "rotate_friction_cloth cfg ?vec j i (radius (fst w)) nfv mf1 S2 C2 = Some (S3, C3)" and
    4: "w' = ((fst w)\<lparr>particles := fst (push_back_cloth ?vec j i (radius (fst w)) S3 C3)\<rparr>,
           snd (push_back_cloth ?vec j i (radius (fst w)) S3 C3))"
    by (rule collide_cloth_pair_phases)
  have pos: "position (S3 ! k) = position (particles (fst w) ! k)"
    "position (C3 ! k) = position (snd w ! k)" for k
    by (simp_all add: impulse_cloth_positions [OF 1] move_friction_cloth_positions [OF 2]
        rotate_friction_cloth_positions [OF 3])
  have len: "length S3 = length (particles (fst w))" "length C3 = length (snd w)"
    using impulse_cloth_frame [OF 1] move_friction_cloth_frame [OF 2] rotate_friction_cloth_frame [OF 3]
    by (simp_all add: frame_def)
  have rng: "j < length S3" "i < length C3"
    using collide_cloth_pair_in_range [OF assms(1)] by (simp_all add: in_range_cloth_def in_range_def len)
  show "position (snd w' ! i) =
           position (snd w ! i) + smul (15 / 100) (smul (overlap_cloth w j i) (normalized ?vec))"
    using push_back_cloth_positions(1) [OF rng] by (simp add: 4 pos overlap_cloth_def)
  show "position (particles (fst w') ! j) =
           position (particles (fst w) ! j) - smul (15 / 100) (smul (overlap_cloth w j i) (normalized ?vec))"
    using push_back_cloth_positions(2) [OF rng] by (simp add: 4 pos overlap_cloth_def)
qed

lemma collide_pair_overlap:
  assumes "collide_pair cfg j i s = Some s'" "j \<noteq> i"
  shows "overlap s' j i \<le> overlap s j i"
proof (cases "touching s j i")
  case False
  with collide_pair_not_touching [OF assms(1)] show ?thesis by simp
next
  case True
  then have p: "0 \<le> overlap s j i"
    by (simp add: touching_def overlap_def)
  have r: "radius s' = radius s"
    using collide_pair_frame [OF assms(1)] by simp
  show ?thesis
    using pushed_apart [OF p, of "position (particles s ! i)" "position (particles s ! j)"]
    by (simp add: overlap_def [of s'] r collide_pair_positions [OF assms(1) True assms(2)])
       (simp add: overlap_def)
qed

lemma collide_cloth_pair_overlap:
  assumes "collide_cloth_pair cfg j i w = Some w'"
  shows "overlap_cloth w' j i \<le> overlap_cloth w j i"
proof (cases "touching_cloth w j i")
  case False
  with collide_cloth_pair_not_touching [OF assms(1)] show ?thesis by simp
next
  case True
  then have p: "0 \<le> overlap_cloth w j i"
    by (simp add: touching_cloth_def overlap_cloth_def)
  have r: "radius (fst w') = radius (fst w)"
    using collide_cloth_pair_frame [OF assms(1)] by simp
  show ?thesis
    using pushed_apart [OF p, of "position (snd w ! i)" "position (particles (fst w) ! j)"]
    by (simp add: overlap_cloth_def [of w'] r collide_cloth_pair_positions [OF assms(1) True])
       (simp add: overlap_cloth_def)
qed

section \<open>The normal impulse\<close>

lemma vdiv_smul: "M \<noteq> 0 \<Longrightarrow> vdiv (smul k n) M = Some (smul (k / M) n)"
  by (simp add: vdiv_def smul_def)

lemma vdiv_Some: "vdiv v M = Some u \<Longrightarrow> M \<noteq> 0"
  by (simp add: vdiv_def split: if_splits)





lemma impulse_velocities:
  assumes "impulse vec j i P = Some (v1, v2, v1_after, P')" "j \<noteq> i" "j < length P" "i < length P"
    and n: "n = normalized vec"
    and a: "a = dot n (velocity (P ! j))" and b: "b = dot n (velocity (P ! i))"
    and m1: "m1 = mass (P ! j)" and m2: "m2 = mass (P ! i)"
  shows "m1 + m2 \<noteq> 0"
    and "velocity (P' ! j) =
           velocity (P ! j) +
           (- smul a n + smul ((m1 * a + m2 * b + m2 * coefRestitution * (b - a)) / (m1 + m2)) n)"
    and "velocity (P' ! i) =
           velocity (P ! i) +
           (- smul b n + smul ((m1 * a + m2 * b + m1 * coefRestitution * (a - b)) / (m1 + m2)) n)"
proof -
  define k1 where "k1 = m1 * a + m2 * b + m2 * coefRestitution * (b - a)"
  define k2 where "k2 = m1 * a + m2 * b + m1 * coefRestitution * (a - b)"
  have w1: "smul m1 (smul a n) + smul m2 (smul b n) + smul (m2 * coefRestitution) (smul b n - smul a n) = smul k1 n"
    by (rule vec4.expand) (simp add: k1_def vec4_sel_simps algebra_simps)
  have w2: "smul m1 (smul a n) + smul m2 (smul b n) + smul (m1 * coefRestitution) (smul a n - smul b n) = smul k2 n"
    by (rule vec4.expand) (simp add: k2_def vec4_sel_simps algebra_simps)
  from assms(1) obtain v2_after where
    e1: "vdiv (smul m1 (smul a n) + smul m2 (smul b n) + smul (m2 * coefRestitution) (smul b n - smul a n))
           (m1 + m2) = Some v1_after" and
    e2: "vdiv (smul m1 (smul a n) + smul m2 (smul b n) + smul (m1 * coefRestitution) (smul a n - smul b n))
           (m1 + m2) = Some v2_after" and
    P': "P' = set_velocity i
                (velocity (set_velocity j (velocity (P ! j) + (- smul a n + v1_after)) P ! i) +
                 (- smul b n + v2_after))
                (set_velocity j (velocity (P ! j) + (- smul a n + v1_after)) P)"
    unfolding n a b m1 m2
    by (auto simp add: impulse_def Let_def split: Option.bind_splits)
  show M: "m1 + m2 \<noteq> 0"
    using e1 by (rule vdiv_Some)
  have v1a: "v1_after = smul (k1 / (m1 + m2)) n"
    using e1 by (simp only: w1 vdiv_smul [OF M] option.inject)
  have v2a: "v2_after = smul (k2 / (m1 + m2)) n"
    using e2 by (simp only: w2 vdiv_smul [OF M] option.inject)
  show "velocity (P' ! j) = velocity (P ! j) + (- smul a n + smul (k1 / (m1 + m2)) n)"
    using assms(2-4) by (simp add: P' nth_set_velocity v1a)
  show "velocity (P' ! i) = velocity (P ! i) + (- smul b n + smul (k2 / (m1 + m2)) n)"
    using assms(2-4) by (simp add: P' nth_set_velocity v2a)
qed

lemma impulse_momentum:
  assumes "impulse vec j i P = Some (v1, v2, v1_after, P')" "j \<noteq> i" "j < length P" "i < length P"
  shows "momentum P' j i = momentum P j i"
proof -
  define n where "n = normalized vec"
  define a where "a = dot n (velocity (P ! j))"
  define b where "b = dot n (velocity (P ! i))"
  define m1 where "m1 = mass (P ! j)"
  define m2 where "m2 = mass (P ! i)"
  note v = impulse_velocities [OF assms n_def a_def b_def m1_def m2_def]
  have m: "mass (P' ! j) = m1" "mass (P' ! i) = m2"
    using impulse_frame [OF assms(1)] by (simp_all add: frame_def m1_def m2_def)
  define K1 where "K1 = m1 * a + m2 * b + m2 * coefRestitution * (b - a)"
  define K2 where "K2 = m1 * a + m2 * b + m1 * coefRestitution * (a - b)"
  define c1 where "c1 = K1 / (m1 + m2)"
  define c2 where "c2 = K2 / (m1 + m2)"
  have "m1 * K1 + m2 * K2 = (m1 * a + m2 * b) * (m1 + m2)"
    by (simp add: K1_def K2_def algebra_simps)
  then have "(m1 * K1 + m2 * K2) / (m1 + m2) = m1 * a + m2 * b"
    using v(1) by simp
  then have s: "m1 * (c1 - a) + m2 * (c2 - b) = 0"
    by (simp add: c1_def c2_def add_divide_distrib right_diff_distrib)
  have "smul m1 (velocity (P ! j) + (- smul a n + smul c1 n)) +
        smul m2 (velocity (P ! i) + (- smul b n + smul c2 n)) =
        (smul m1 (velocity (P ! j)) + smul m2 (velocity (P ! i))) + smul (m1 * (c1 - a) + m2 * (c2 - b)) n"
    by (rule vec4.expand) (simp add: vec4_sel_simps algebra_simps)
  also have "\<dots> = smul m1 (velocity (P ! j)) + smul m2 (velocity (P ! i))"
    by (rule vec4.expand) (simp add: s vec4_sel_simps)
  finally show ?thesis
    unfolding momentum_def m v(2,3) c1_def c2_def K1_def K2_def by (simp add: m1_def m2_def)
qed

section \<open>The velocities that the loop body returns\<close>















section \<open>Adding spheres\<close>

lemma length_resize: "length (resize n pad xs) = n"
  by (simp add: resize_def)

lemma nth_resize: "k < length xs \<Longrightarrow> k < n \<Longrightarrow> resize n pad xs ! k = xs ! k"
  by (simp add: resize_def nth_append)

lemma addSphere_Some:
  assumes "addSphere cfg fresh pos size' s = Some s'"
  shows "sphereCount s' = Suc (sphereCount s)"
    and "sphereCount s = length (particles s) \<Longrightarrow>
           length (particles s') = 2 * sphereCount s \<and> length (radius s') = 2 * sphereCount s"
    and "sphereCount s \<noteq> length (particles s) \<Longrightarrow>
           length (particles s') = length (particles s) \<and> length (radius s') = length (radius s)"
    and "sphereCount s < length (particles s')" "sphereCount s < length (radius s')"
    and "radius s' ! sphereCount s = size'"
    and "position (particles s' ! sphereCount s) = pos"
    and "velocity (particles s' ! sphereCount s) = 0"
    and "acceleration (particles s' ! sphereCount s) = 0"
    and "mass (particles s' ! sphereCount s) = sphereDensity cfg * size' * size' * size'"
    and "k < sphereCount s \<Longrightarrow> k < length (particles s) \<Longrightarrow> particles s' ! k = particles s ! k"
    and "k < sphereCount s \<Longrightarrow> k < length (radius s) \<Longrightarrow> radius s' ! k = radius s ! k"
  using assms
  by (auto simp add: addSphere_def Let_def in_range_def length_resize nth_resize nth_update_any
        set_position_def set_velocity_def split: if_splits)

lemma addSphere_defined:
  assumes "sphereCount s < length (particles s) \<and> sphereCount s < length (radius s) \<or>
           sphereCount s = length (particles s) \<and> 0 < sphereCount s"
  shows "\<exists>s'. addSphere cfg fresh pos size' s = Some s'"
  using assms by (auto simp add: addSphere_def Let_def in_range_def length_resize)

lemma addSpheres_snoc:
  "addSpheres cfg fresh (adds @ [a]) s =
     (case addSpheres cfg fresh adds s of None \<Rightarrow> None | Some t \<Rightarrow> addSphere cfg fresh (fst a) (snd a) t)"
  by (simp add: addSpheres_def for_each_append split: option.splits)

lemma addSpheres_invariant:
  assumes "sphereCount s0 = 0" "length (particles s0) = length (radius s0)" "0 < length (radius s0)"
  shows "\<exists>s. addSpheres cfg fresh adds s0 = Some s \<and> sphereCount s = length adds \<and>
           length (particles s) = length (radius s) \<and> sphereCount s \<le> length (radius s) \<and>
           0 < length (radius s) \<and>
           (\<forall>k<length adds.
              radius s ! k = snd (adds ! k) \<and> position (particles s ! k) = fst (adds ! k) \<and>
              mass (particles s ! k) = sphereDensity cfg * snd (adds ! k) * snd (adds ! k) * snd (adds ! k))"
proof (induction adds rule: rev_induct)
  case Nil
  with assms show ?case by (simp add: addSpheres_def)
next
  case (snoc a adds)
  then obtain s where s: "addSpheres cfg fresh adds s0 = Some s" "sphereCount s = length adds"
    "length (particles s) = length (radius s)" "sphereCount s \<le> length (radius s)" "0 < length (radius s)"
    and old: "\<And>k. k < length adds \<Longrightarrow>
              radius s ! k = snd (adds ! k) \<and> position (particles s ! k) = fst (adds ! k) \<and>
              mass (particles s ! k) = sphereDensity cfg * snd (adds ! k) * snd (adds ! k) * snd (adds ! k)"
    by blast
  have "sphereCount s < length (particles s) \<and> sphereCount s < length (radius s) \<or>
        sphereCount s = length (particles s) \<and> 0 < sphereCount s"
    using s(3-5) by auto
  from addSphere_defined [OF this] obtain s' where s': "addSphere cfg fresh (fst a) (snd a) s = Some s'"
    by blast
  note f = addSphere_Some [OF s']
  have len: "length (particles s') = length (radius s')"
    using f(2,3) s(3) by (cases "sphereCount s = length (particles s)") simp_all
  have new: "radius s' ! k = snd ((adds @ [a]) ! k) \<and> position (particles s' ! k) = fst ((adds @ [a]) ! k) \<and>
      mass (particles s' ! k) =
        sphereDensity cfg * snd ((adds @ [a]) ! k) * snd ((adds @ [a]) ! k) * snd ((adds @ [a]) ! k)"
    if "k < length (adds @ [a])" for k
  proof (cases "k < length adds")
    case True
    then have "k < sphereCount s" "k < length (particles s)" "k < length (radius s)"
      using s(2-4) by simp_all
    with f(11,12) [of k] old [OF True] True show ?thesis
      by (simp add: nth_append)
  next
    case False
    with that have "k = sphereCount s" using s(2) by simp
    with f(6,7,10) s(2) show ?thesis by (simp add: nth_append)
  qed
  from s(1) s' f(1) s(2) f(5) len new show ?case
    by (auto simp add: addSpheres_snoc)
qed

section \<open>The claims on the collision response and on the storage\<close>









text \<open>
  Claim C5. The overlap of a pair after the loop body has run on it is not greater
  than before. The positions change only in the correction of lines 221 to 224 (165 to
  168 for the cloth), so this compares the overlap right before and right after the
  correction.
\<close>

theorem collide_overlap_not_greater:
  "(collide_pair cfg j i s = Some s' \<and> j \<noteq> i \<longrightarrow> overlap s' j i \<le> overlap s j i) \<and>
   (collide_cloth_pair cfg k l w = Some w' \<longrightarrow> overlap_cloth w' k l \<le> overlap_cloth w k l)"
  using collide_pair_overlap [of cfg j i s s'] collide_cloth_pair_overlap [of cfg k l w w']
  by blast

theorem collide_overlap_not_greater_witness:
  "(\<exists>s'. collide_pair cfg0 0 1 approaching = Some s' \<and> (0 :: nat) \<noteq> 1 \<and>
      overlap s' 0 1 \<le> overlap approaching 0 1 \<and> overlap approaching 0 1 = 1) \<and>
   (\<exists>w'. collide_cloth_pair cfg0 0 0 approaching_cloth = Some w' \<and>
      overlap_cloth w' 0 0 \<le> overlap_cloth approaching_cloth 0 0 \<and>
      overlap_cloth approaching_cloth 0 0 = 1 / 2)"
proof -
  from approaching_defined obtain s' where s': "collide_pair cfg0 0 (Suc 0) approaching = Some s'"
    by blast
  from approaching_cloth_defined obtain w' where w': "collide_cloth_pair cfg0 0 0 approaching_cloth = Some w'"
    by blast
  from collide_overlap_not_greater [of cfg0 0 "Suc 0" approaching s' 0 0 approaching_cloth w'] s' w'
  have "overlap s' 0 (Suc 0) \<le> overlap approaching 0 (Suc 0) \<and>
        overlap_cloth w' 0 0 \<le> overlap_cloth approaching_cloth 0 0"
    by simp
  with s' w' show ?thesis
    by (auto simp add: approaching_facts approaching_cloth_facts)
qed

text \<open>
  Claim C6. A run of either operation keeps the number of spheres, the radii, the
  lengths of the particle buffers and, for every particle, its mass, inverse mass and
  acceleration; a particle that is in no pair whose test held during the run is the
  same after the run as before. So only velocity, position and rotation of particles
  that collided can differ.
\<close>

theorem collide_frame_fields:
  "(collide cfg s = Some s' \<longrightarrow>
      sphereCount s' = sphereCount s \<and> radius s' = radius s \<and>
      length (particles s') = length (particles s) \<and>
      (\<forall>k<length (particles s).
         mass (particles s' ! k) = mass (particles s ! k) \<and>
         inverseMass (particles s' ! k) = inverseMass (particles s ! k) \<and>
         acceleration (particles s' ! k) = acceleration (particles s ! k) \<and>
         (k \<notin> fst ` set (collide_hits cfg s) \<union> snd ` set (collide_hits cfg s) \<longrightarrow>
          particles s' ! k = particles s ! k))) \<and>
   (collide_cloth cfg w = Some w' \<longrightarrow>
      sphereCount (fst w') = sphereCount (fst w) \<and> radius (fst w') = radius (fst w) \<and>
      length (particles (fst w')) = length (particles (fst w)) \<and> length (snd w') = length (snd w) \<and>
      (\<forall>k<length (particles (fst w)).
         mass (particles (fst w') ! k) = mass (particles (fst w) ! k) \<and>
         inverseMass (particles (fst w') ! k) = inverseMass (particles (fst w) ! k) \<and>
         acceleration (particles (fst w') ! k) = acceleration (particles (fst w) ! k) \<and>
         (k \<notin> fst ` set (collide_cloth_hits cfg w) \<longrightarrow> particles (fst w') ! k = particles (fst w) ! k)) \<and>
      (\<forall>k<length (snd w).
         mass (snd w' ! k) = mass (snd w ! k) \<and>
         inverseMass (snd w' ! k) = inverseMass (snd w ! k) \<and>
         acceleration (snd w' ! k) = acceleration (snd w ! k) \<and>
         (k \<notin> snd ` set (collide_cloth_hits cfg w) \<longrightarrow> snd w' ! k = snd w ! k)))"
proof (intro conjI impI)
  assume a: "collide cfg s = Some s'"
  have "(\<Union>p\<in>set (collide_hits cfg s). {fst p, snd p}) =
        fst ` set (collide_hits cfg s) \<union> snd ` set (collide_hits cfg s)"
    by auto
  with collide_frame [OF a]
  have f: "frame (fst ` set (collide_hits cfg s) \<union> snd ` set (collide_hits cfg s)) (particles s) (particles s')"
    and c: "sphereCount s' = sphereCount s" "radius s' = radius s"
    by simp_all
  from c show "sphereCount s' = sphereCount s" "radius s' = radius s" by simp_all
  from f show "length (particles s') = length (particles s)" by (simp add: frame_def)
  from f show "\<forall>k<length (particles s).
         mass (particles s' ! k) = mass (particles s ! k) \<and>
         inverseMass (particles s' ! k) = inverseMass (particles s ! k) \<and>
         acceleration (particles s' ! k) = acceleration (particles s ! k) \<and>
         (k \<notin> fst ` set (collide_hits cfg s) \<union> snd ` set (collide_hits cfg s) \<longrightarrow>
          particles s' ! k = particles s ! k)"
    unfolding frame_def by blast
next
  assume a: "collide_cloth cfg w = Some w'"
  note f = collide_cloth_frame [OF a]
  from f show "sphereCount (fst w') = sphereCount (fst w)" "radius (fst w') = radius (fst w)"
    by simp_all
  from f show "length (particles (fst w')) = length (particles (fst w))" "length (snd w') = length (snd w)"
    by (simp_all add: frame_def)
  from f show "\<forall>k<length (particles (fst w)).
         mass (particles (fst w') ! k) = mass (particles (fst w) ! k) \<and>
         inverseMass (particles (fst w') ! k) = inverseMass (particles (fst w) ! k) \<and>
         acceleration (particles (fst w') ! k) = acceleration (particles (fst w) ! k) \<and>
         (k \<notin> fst ` set (collide_cloth_hits cfg w) \<longrightarrow> particles (fst w') ! k = particles (fst w) ! k)"
    unfolding frame_def by blast
  from f show "\<forall>k<length (snd w).
         mass (snd w' ! k) = mass (snd w ! k) \<and>
         inverseMass (snd w' ! k) = inverseMass (snd w ! k) \<and>
         acceleration (snd w' ! k) = acceleration (snd w ! k) \<and>
         (k \<notin> snd ` set (collide_cloth_hits cfg w) \<longrightarrow> snd w' ! k = snd w ! k)"
    unfolding frame_def by blast
qed

lemma approaching_cloth_run:
  "\<exists>w'. collide_cloth cfg0 approaching_cloth = Some w'"
  "collide_cloth_hits cfg0 approaching_cloth = [(0, 0)]"
proof -
  have c: "sphereCount (fst approaching_cloth) = Suc 0" "particlesPerEdge cfg0 * particlesPerEdge cfg0 = Suc 0"
    by (simp_all add: approaching_cloth_def cfg0_def)
  from approaching_cloth_defined obtain w' where w': "collide_cloth_pair cfg0 0 0 approaching_cloth = Some w'"
    by blast
  then show "\<exists>w'. collide_cloth cfg0 approaching_cloth = Some w'"
    by (simp add: collide_cloth_pairs c cloth_pairs_1)
  show "collide_cloth_hits cfg0 approaching_cloth = [(0, 0)]"
    by (simp add: collide_cloth_hits_def c cloth_pairs_1 approaching_cloth_facts w')
qed

theorem collide_frame_fields_witness:
  "collide cfg0 three = Some three_after \<and> collide_hits cfg0 three = [(0, 1)] \<and>
   sphereCount three_after = 3 \<and> radius three_after = [1, 1, 1] \<and> length (particles three_after) = 3 \<and>
   mass (particles three_after ! 0) = 1 \<and> inverseMass (particles three_after ! 1) = 1 \<and>
   acceleration (particles three_after ! 0) = 0 \<and>
   particles three_after ! 2 = particles three ! 2 \<and>
   (\<exists>w'. collide_cloth cfg0 approaching_cloth = Some w' \<and>
      collide_cloth_hits cfg0 approaching_cloth = [(0, 0)] \<and>
      sphereCount (fst w') = 1 \<and> radius (fst w') = [1] \<and>
      length (particles (fst w')) = 1 \<and> length (snd w') = 1 \<and>
      mass (particles (fst w') ! 0) = 1 \<and> mass (snd w' ! 0) = 1 \<and>
      acceleration (snd w' ! 0) = 0)"
proof -
  from approaching_cloth_run(1) obtain w' where w': "collide_cloth cfg0 approaching_cloth = Some w'"
    by blast
  note f = collide_frame_fields [of cfg0 three three_after approaching_cloth w']
  from f three_run(1) have g:
    "sphereCount three_after = sphereCount three" "radius three_after = radius three"
    "length (particles three_after) = length (particles three)"
    "\<forall>k<length (particles three).
       mass (particles three_after ! k) = mass (particles three ! k) \<and>
       inverseMass (particles three_after ! k) = inverseMass (particles three ! k) \<and>
       acceleration (particles three_after ! k) = acceleration (particles three ! k) \<and>
       (k \<notin> fst ` set (collide_hits cfg0 three) \<union> snd ` set (collide_hits cfg0 three) \<longrightarrow>
        particles three_after ! k = particles three ! k)"
    by blast+
  have l: "length (particles three) = 3" "sphereCount three = 3" "radius three = [1, 1, 1]"
    "mass (particles three ! 0) = 1" "inverseMass (particles three ! Suc 0) = 1"
    "acceleration (particles three ! 0) = 0"
    by (simp_all add: three_def ball_def)
  have "(0 :: nat) < length (particles three)" "(1 :: nat) < length (particles three)"
    "(2 :: nat) < length (particles three)"
    "(2 :: nat) \<notin> fst ` set (collide_hits cfg0 three) \<union> snd ` set (collide_hits cfg0 three)"
    by (simp_all add: l three_run(2))
  with g(4) have "mass (particles three_after ! 0) = mass (particles three ! 0)"
    "inverseMass (particles three_after ! 1) = inverseMass (particles three ! 1)"
    "acceleration (particles three_after ! 0) = acceleration (particles three ! 0)"
    "particles three_after ! 2 = particles three ! 2"
    by blast+
  with g(1-3) have s: "sphereCount three_after = 3 \<and> radius three_after = [1, 1, 1] \<and>
     length (particles three_after) = 3 \<and>
     mass (particles three_after ! 0) = 1 \<and> inverseMass (particles three_after ! 1) = 1 \<and>
     acceleration (particles three_after ! 0) = 0 \<and>
     particles three_after ! 2 = particles three ! 2"
    by (simp add: l)
  from f w' have h:
    "sphereCount (fst w') = sphereCount (fst approaching_cloth)" "radius (fst w') = radius (fst approaching_cloth)"
    "length (particles (fst w')) = length (particles (fst approaching_cloth))"
    "length (snd w') = length (snd approaching_cloth)"
    "\<forall>k<length (particles (fst approaching_cloth)).
         mass (particles (fst w') ! k) = mass (particles (fst approaching_cloth) ! k) \<and>
         inverseMass (particles (fst w') ! k) = inverseMass (particles (fst approaching_cloth) ! k) \<and>
         acceleration (particles (fst w') ! k) = acceleration (particles (fst approaching_cloth) ! k) \<and>
         (k \<notin> fst ` set (collide_cloth_hits cfg0 approaching_cloth) \<longrightarrow>
          particles (fst w') ! k = particles (fst approaching_cloth) ! k)"
    "\<forall>k<length (snd approaching_cloth).
         mass (snd w' ! k) = mass (snd approaching_cloth ! k) \<and>
         inverseMass (snd w' ! k) = inverseMass (snd approaching_cloth ! k) \<and>
         acceleration (snd w' ! k) = acceleration (snd approaching_cloth ! k) \<and>
         (k \<notin> snd ` set (collide_cloth_hits cfg0 approaching_cloth) \<longrightarrow>
          snd w' ! k = snd approaching_cloth ! k)"
    by blast+
  have lc: "length (particles (fst approaching_cloth)) = 1" "length (snd approaching_cloth) = 1"
    "sphereCount (fst approaching_cloth) = 1" "radius (fst approaching_cloth) = [1]"
    "mass (particles (fst approaching_cloth) ! 0) = 1" "mass (snd approaching_cloth ! 0) = 1"
    "acceleration (snd approaching_cloth ! 0) = 0"
    by (simp_all add: approaching_cloth_def ball_def)
  have "(0 :: nat) < length (particles (fst approaching_cloth))" "(0 :: nat) < length (snd approaching_cloth)"
    by (simp_all add: lc)
  with h(5,6) have "mass (particles (fst w') ! 0) = mass (particles (fst approaching_cloth) ! 0)"
    "mass (snd w' ! 0) = mass (snd approaching_cloth ! 0)"
    "acceleration (snd w' ! 0) = acceleration (snd approaching_cloth ! 0)"
    by blast+
  with h(1-4) have c: "sphereCount (fst w') = 1 \<and> radius (fst w') = [1] \<and>
      length (particles (fst w')) = 1 \<and> length (snd w') = 1 \<and>
      mass (particles (fst w') ! 0) = 1 \<and> mass (snd w' ! 0) = 1 \<and>
      acceleration (snd w' ! 0) = 0"
    by (simp add: lc)
  from s c w' three_run approaching_cloth_run(2) show ?thesis
    by auto
qed

text \<open>
  Claim C7. \<^verbatim>\<open>addSphere\<close> stores the size as the radius of the new sphere and
  \<open>sphereDensity * size * size * size\<close> as its mass, for a positive size as for any
  other; and after any sequence of calls, started with no sphere and buffers of one
  equal non-zero length (as the constructor leaves them), every sphere of the set has
  the radius it was added with and the mass \<open>sphereDensity * radius * radius * radius\<close>.
\<close>

theorem addSphere_mass_density:
  "(addSphere cfg fresh pos size' s = Some s' \<longrightarrow>
      radius s' ! sphereCount s = size' \<and>
      mass (particles s' ! sphereCount s) = sphereDensity cfg * size' * size' * size') \<and>
   (sphereCount s0 = 0 \<and> length (particles s0) = length (radius s0) \<and> 0 < length (radius s0) \<longrightarrow>
      (\<exists>t. addSpheres cfg fresh adds s0 = Some t \<and> sphereCount t = length adds \<and>
           (\<forall>k<sphereCount t.
              radius t ! k = snd (adds ! k) \<and>
              mass (particles t ! k) = sphereDensity cfg * radius t ! k * radius t ! k * radius t ! k)))"
proof (intro conjI impI)
  assume "addSphere cfg fresh pos size' s = Some s'"
  from addSphere_Some(6,10) [OF this]
  show "radius s' ! sphereCount s = size'"
    "mass (particles s' ! sphereCount s) = sphereDensity cfg * size' * size' * size'"
    by simp_all
next
  assume "sphereCount s0 = 0 \<and> length (particles s0) = length (radius s0) \<and> 0 < length (radius s0)"
  then obtain t where t: "addSpheres cfg fresh adds s0 = Some t" "sphereCount t = length adds"
    and e: "\<And>k. k < length adds \<Longrightarrow>
              radius t ! k = snd (adds ! k) \<and> position (particles t ! k) = fst (adds ! k) \<and>
              mass (particles t ! k) = sphereDensity cfg * snd (adds ! k) * snd (adds ! k) * snd (adds ! k)"
    using addSpheres_invariant [of s0 cfg fresh adds] by blast
  have "\<forall>k<sphereCount t.
          radius t ! k = snd (adds ! k) \<and>
          mass (particles t ! k) = sphereDensity cfg * radius t ! k * radius t ! k * radius t ! k"
    using e by (simp add: t(2))
  with t show "\<exists>t. addSpheres cfg fresh adds s0 = Some t \<and> sphereCount t = length adds \<and>
           (\<forall>k<sphereCount t.
              radius t ! k = snd (adds ! k) \<and>
              mass (particles t ! k) = sphereDensity cfg * radius t ! k * radius t ! k * radius t ! k)"
    by blast
qed

theorem addSphere_mass_density_witness:
  "(\<exists>s'. addSphere cfg0 unit_particle (Vec4 3 0 0 0) 2 (initSpheres unit_particle) = Some s' \<and>
      radius s' ! 0 = 2 \<and> mass (particles s' ! 0) = 8) \<and>
   sphereCount (initSpheres unit_particle) = 0 \<and>
   length (particles (initSpheres unit_particle)) = length (radius (initSpheres unit_particle)) \<and>
   0 < length (radius (initSpheres unit_particle)) \<and>
   (\<exists>t. addSpheres cfg0 unit_particle [(0, 1), (Vec4 3 0 0 0, 2), (Vec4 9 0 0 0, 3)] (initSpheres unit_particle) = Some t \<and>
      sphereCount t = 3 \<and> radius t ! 2 = 3 \<and> mass (particles t ! 0) = 1 \<and>
      mass (particles t ! 1) = 8 \<and> mass (particles t ! 2) = 27)"
proof -
  have i: "sphereCount (initSpheres unit_particle) = 0"
    "length (particles (initSpheres unit_particle)) = length (radius (initSpheres unit_particle))"
    "0 < length (radius (initSpheres unit_particle))"
    by (simp_all add: initSpheres_def)
  obtain s' where s': "addSphere cfg0 unit_particle (Vec4 3 0 0 0) 2 (initSpheres unit_particle) = Some s'"
    using addSphere_defined [of "initSpheres unit_particle" cfg0 unit_particle "Vec4 3 0 0 0" 2]
    by (auto simp add: initSpheres_def)
  note f = addSphere_mass_density
    [of cfg0 unit_particle "Vec4 3 0 0 0" 2 "initSpheres unit_particle" s' "initSpheres unit_particle"
        "[(0, 1), (Vec4 3 0 0 0, 2), (Vec4 9 0 0 0, 3)]"]
  from f s' have a: "radius s' ! 0 = 2 \<and> mass (particles s' ! 0) = 8"
    by (simp add: i cfg0_def)
  from f i obtain t where
    t: "addSpheres cfg0 unit_particle [(0, 1), (Vec4 3 0 0 0, 2), (Vec4 9 0 0 0, 3)] (initSpheres unit_particle) = Some t"
      "sphereCount t = 3"
      "\<forall>k<sphereCount t. radius t ! k = snd ([(0 :: vec4, 1 :: real), (Vec4 3 0 0 0, 2), (Vec4 9 0 0 0, 3)] ! k) \<and>
              mass (particles t ! k) = sphereDensity cfg0 * radius t ! k * radius t ! k * radius t ! k"
    by auto
  let ?adds = "[(0 :: vec4, 1 :: real), (Vec4 3 0 0 0, 2), (Vec4 9 0 0 0, 3)]"
  have "(0 :: nat) < sphereCount t" "(1 :: nat) < sphereCount t" "(2 :: nat) < sphereCount t"
    by (simp_all add: t(2))
  with t(3) have
    "radius t ! 0 = snd (?adds ! 0) \<and>
       mass (particles t ! 0) = sphereDensity cfg0 * radius t ! 0 * radius t ! 0 * radius t ! 0"
    "radius t ! 1 = snd (?adds ! 1) \<and>
       mass (particles t ! 1) = sphereDensity cfg0 * radius t ! 1 * radius t ! 1 * radius t ! 1"
    "radius t ! 2 = snd (?adds ! 2) \<and>
       mass (particles t ! 2) = sphereDensity cfg0 * radius t ! 2 * radius t ! 2 * radius t ! 2"
    by blast+
  then have "radius t ! 2 = 3 \<and> mass (particles t ! 0) = 1 \<and> mass (particles t ! 1) = 8 \<and>
      mass (particles t ! 2) = 27"
    by (simp add: cfg0_def)
  with s' a i t(1,2) show ?thesis
    by blast
qed

text \<open>
  Claim C8. When the number of spheres equals the capacity, \<^verbatim>\<open>addSphere\<close> resizes
  both buffers to twice that number, otherwise it leaves their lengths; then it writes
  the new sphere at the index of the old count, which the buffers hold, and the count
  grows by one. The spheres that were there stay. With at least one sphere and a full
  buffer the call is defined.
\<close>

theorem addSphere_doubles_capacity:
  "(addSphere cfg fresh pos size' s = Some s' \<longrightarrow>
      sphereCount s' = sphereCount s + 1 \<and>
      (if sphereCount s = length (particles s)
       then length (particles s') = 2 * sphereCount s \<and> length (radius s') = 2 * sphereCount s
       else length (particles s') = length (particles s) \<and> length (radius s') = length (radius s)) \<and>
      sphereCount s < length (particles s') \<and> sphereCount s < length (radius s') \<and>
      radius s' ! sphereCount s = size' \<and> position (particles s' ! sphereCount s) = pos \<and>
      (\<forall>k<sphereCount s.
         (k < length (particles s) \<longrightarrow> particles s' ! k = particles s ! k) \<and>
         (k < length (radius s) \<longrightarrow> radius s' ! k = radius s ! k))) \<and>
   (sphereCount s = length (particles s) \<and> 0 < sphereCount s \<longrightarrow>
      (\<exists>t. addSphere cfg fresh pos size' s = Some t))"
proof (intro conjI impI)
  assume a: "addSphere cfg fresh pos size' s = Some s'"
  note f = addSphere_Some [OF a]
  from f(1) show "sphereCount s' = sphereCount s + 1" by simp
  from f(2,3) show "if sphereCount s = length (particles s)
       then length (particles s') = 2 * sphereCount s \<and> length (radius s') = 2 * sphereCount s
       else length (particles s') = length (particles s) \<and> length (radius s') = length (radius s)"
    by simp
  from f(4,5,6,7) show "sphereCount s < length (particles s')" "sphereCount s < length (radius s')"
    "radius s' ! sphereCount s = size'" "position (particles s' ! sphereCount s) = pos"
    by simp_all
  from f(11,12) show "\<forall>k<sphereCount s.
         (k < length (particles s) \<longrightarrow> particles s' ! k = particles s ! k) \<and>
         (k < length (radius s) \<longrightarrow> radius s' ! k = radius s ! k)"
    by blast
next
  assume "sphereCount s = length (particles s) \<and> 0 < sphereCount s"
  then show "\<exists>t. addSphere cfg fresh pos size' s = Some t"
    by (intro addSphere_defined) auto
qed

theorem addSphere_doubles_capacity_witness:
  "sphereCount one_sphere = length (particles one_sphere) \<and> 0 < sphereCount one_sphere \<and>
   (\<exists>t. addSphere cfg0 unit_particle (Vec4 3 0 0 0) 2 one_sphere = Some t \<and>
      sphereCount t = 2 \<and> length (particles t) = 2 \<and> length (radius t) = 2 \<and>
      radius t ! 1 = 2 \<and> position (particles t ! 1) = Vec4 3 0 0 0 \<and>
      particles t ! 0 = particles one_sphere ! 0 \<and> radius t ! 0 = radius one_sphere ! 0)"
proof -
  have i: "sphereCount one_sphere = length (particles one_sphere)" "0 < sphereCount one_sphere"
    "sphereCount one_sphere = Suc 0" "length (radius one_sphere) = Suc 0"
    "length (particles one_sphere) = Suc 0"
    by (simp_all add: one_sphere_def)
  note f = addSphere_doubles_capacity [of cfg0 unit_particle "Vec4 3 0 0 0" 2 one_sphere _ ]
  from f i(1,2) obtain t where t: "addSphere cfg0 unit_particle (Vec4 3 0 0 0) 2 one_sphere = Some t"
    by blast
  from addSphere_doubles_capacity [of cfg0 unit_particle "Vec4 3 0 0 0" 2 one_sphere t] t
  have "sphereCount t = 2 \<and> length (particles t) = 2 \<and> length (radius t) = 2 \<and>
      radius t ! 1 = 2 \<and> position (particles t ! 1) = Vec4 3 0 0 0 \<and>
      particles t ! 0 = particles one_sphere ! 0 \<and> radius t ! 0 = radius one_sphere ! 0"
    by (simp add: i(3,4,5))
  with i(1,2) t show ?thesis by blast
qed








section \<open>Momentum\<close>

text \<open>
  Claim C1. The normal impulse of lines 191 to 197 keeps the momentum of the pair
  (\<open>impulse_momentum\<close> above). The whole response does not: lines 213 and 214 add
  \<open>deltaTime * rotate_direction * inverseMass\<close> to each velocity, two unit directions
  that need not cancel. For two overlapping unit spheres of mass 1 that spin about
  different axes, the first moving towards the second, one call of \<^verbatim>\<open>collide()\<close>
  takes the momentum of the pair from \<open>(1, 0, 0, 0)\<close> to
  \<open>(1, deltaTime, -deltaTime, 0)\<close>. No vector that is normalised in this run is zero.
\<close>

theorem collide_spinning_momentum:
  "collide cfg0 spinning = Some spinning_after \<and>
   momentum (particles spinning) 0 1 = Vec4 1 0 0 0 \<and>
   momentum (particles spinning_after) 0 1 = Vec4 1 (1 / 1000) (- (1 / 1000)) 0"
proof -
  have "sphereCount spinning = 2"
    by (simp add: spinning_def two_spheres_def)
  then have "collide cfg0 spinning = collide_pair cfg0 0 (Suc 0) spinning"
    by (simp add: collide_two)
  then have "collide cfg0 spinning = Some spinning_after"
    by (simp only: spinning_pair)
  moreover have "momentum (particles spinning) 0 1 = Vec4 1 0 0 0"
    by (simp add: momentum_def spinning_def two_spheres_def ball_def smul_def plus_vec4_def zero_vec4_def)
  moreover have "momentum (particles spinning_after) 0 1 = Vec4 1 (1 / 1000) (- (1 / 1000)) 0"
    by (simp add: momentum_def spinning_after_def two_spheres_def ball_def smul_def plus_vec4_def)
  ultimately show ?thesis by blast
qed

end
